theory Spec2Isabelle
  imports Complex_Main "HOL-Library.AList"
begin

section \<open>Python values shared by both modules\<close>

text \<open>
  The exception classes that the two source files raise, catch or let through.
  \<open>KeyboardInterrupt\<close> and \<open>SystemExit\<close> derive from \<open>BaseException\<close> only, so
  an \<open>except Exception\<close> clause does not catch them; every other class below is a
  subclass of \<open>Exception\<close>. \<open>OSError\<close> stands for the whole family raised by the
  file system calls (\<open>FileNotFoundError\<close>, \<open>PermissionError\<close>, \<open>IsADirectoryError\<close>,
  \<open>FileExistsError\<close>, \<open>shutil.Error\<close>).
\<close>

datatype py_exception =
    ValueError
  | KeyError string
  | TypeError
  | OSError
  | BadZipFile
  | OtherException string
  | KeyboardInterrupt
  | SystemExit

fun is_Exception :: "py_exception \<Rightarrow> bool" where
  "is_Exception KeyboardInterrupt = False"
| "is_Exception SystemExit = False"
| "is_Exception _ = True"

fun is_OSError :: "py_exception \<Rightarrow> bool" where
  "is_OSError OSError = True"
| "is_OSError _ = False"

fun repr :: "py_exception \<Rightarrow> string" where
  "repr ValueError = ''ValueError()''"
| "repr (KeyError k) = ''KeyError('' @ k @ '')''"
| "repr TypeError = ''TypeError()''"
| "repr OSError = ''OSError()''"
| "repr BadZipFile = ''BadZipFile()''"
| "repr (OtherException n) = n @ ''()''"
| "repr KeyboardInterrupt = ''KeyboardInterrupt()''"
| "repr SystemExit = ''SystemExit()''"

fun is_BadZipFile :: "py_exception \<Rightarrow> bool" where
  "is_BadZipFile BadZipFile = True"
| "is_BadZipFile _ = False"

section \<open>\<open>utilities/backup.py\<close>: \<open>sizeof_fmt\<close>\<close>

text \<open>
  \<open>num\<close> is an \<open>int\<close> (a byte count, as \<open>os.path.getsize\<close> returns) or a
  \<open>float\<close>. A float is modelled by the rational number it denotes (infinities and
  NaN are left out). \<open>num /= 1000.0\<close> converts an \<open>int\<close> to the nearest double and
  divides with the rounding of IEEE 754 (to nearest, ties to even, 53 bits); the
  comparison \<open>abs(num) < 1000.0\<close> is exact, also for an \<open>int\<close>.
\<close>

datatype py_num = PyInt int | PyFloat rat

fun num_value :: "py_num \<Rightarrow> rat" where
  "num_value (PyInt n) = of_int n"
| "num_value (PyFloat x) = x"

text \<open>\<open>int.bit_length()\<close>.\<close>

fun bit_length :: "nat \<Rightarrow> nat" where
  "bit_length n = (if n = 0 then 0 else Suc (bit_length (n div 2)))"

declare bit_length.simps [simp del]

definition pow2 :: "int \<Rightarrow> rat" where
  "pow2 e = (if 0 \<le> e then 2 ^ nat e else 1 / 2 ^ nat (- e))"

text \<open>The exponent \<open>e\<close> with \<open>2 ** e <= a < 2 ** (e + 1)\<close>, for a positive \<open>a\<close>.\<close>

definition floor_log2 :: "rat \<Rightarrow> int" where
  "floor_log2 a =
     (if 1 \<le> a then int (bit_length (nat \<lfloor>a\<rfloor>)) - 1
      else (let k = int (bit_length (nat \<lfloor>1 / a\<rfloor>))
            in if a * pow2 (k - 1) = 1 then 1 - k else - k))"

text \<open>Round half to even.\<close>

definition round_half_even :: "rat \<Rightarrow> int" where
  "round_half_even q =
     (let f = \<lfloor>q\<rfloor>; r = q - of_int f
      in if r < 1 / 2 then f
         else if 1 / 2 < r then f + 1
         else if even f then f else f + 1)"

text \<open>
  The double nearest to a rational: a multiple of the unit in the last place, which is
  \<open>2 ** (e - 52)\<close> and at least \<open>2 ** -1074\<close>. The caller checks for overflow.
\<close>

definition round_to_double :: "rat \<Rightarrow> rat" where
  "round_to_double q =
     (if q = 0 then 0
      else (let a = \<bar>q\<bar>;
                u = pow2 (max (floor_log2 a - 52) (- 1074));
                m = round_half_even (a / u)
            in (if q < 0 then - 1 else 1) * of_int m * u))"

text \<open>\<open>float(num)\<close>: an \<open>int\<close> beyond the range of a double raises
  \<open>OverflowError\<close>.\<close>

definition to_float :: "py_num \<Rightarrow> py_exception + rat" where
  "to_float num =
     (case num of
        PyFloat x \<Rightarrow> Inr x
      | PyInt n \<Rightarrow>
          (let x = round_to_double (of_int n)
           in if 2 ^ 1024 \<le> \<bar>x\<bar> then Inl (OtherException ''OverflowError'') else Inr x))"

definition digit_char :: "nat \<Rightarrow> char" where
  "digit_char d = ''0123456789'' ! d"

fun str_nat :: "nat \<Rightarrow> string" where
  "str_nat n = (if n < 10 then [digit_char n] else str_nat (n div 10) @ [digit_char (n mod 10)])"

declare str_nat.simps [simp del]

text \<open>\<open>f"{x:.1f}"\<close> of a float: the exact value rounded to one decimal, ties to even;
  sign, integer part, a point and one digit.\<close>

definition fmt_1f :: "rat \<Rightarrow> string" where
  "fmt_1f x =
     (let t = nat (round_half_even (\<bar>x\<bar> * 10))
      in (if x < 0 then ''-'' else '''') @ str_nat (t div 10) @ ''.'' @ [digit_char (t mod 10)])"

text \<open>\<open>f"{x:3.1f}"\<close>: the same, right-aligned in a field of at least three characters.\<close>

definition fmt_3_1f :: "rat \<Rightarrow> string" where
  "fmt_3_1f x = (let s = fmt_1f x in replicate (3 - length s) CHR '' '' @ s)"

text \<open>The \<open>for\<close> loop over the units and the \<open>return\<close> after it. Formatting an
  \<open>int\<close> with \<open>f\<close> converts it to a float first.\<close>

fun sizeof_fmt_loop :: "string list \<Rightarrow> py_num \<Rightarrow> string \<Rightarrow> py_exception + string" where
  "sizeof_fmt_loop [] num suffix =
     (case to_float num of
        Inl e \<Rightarrow> Inl e
      | Inr x \<Rightarrow> Inr (fmt_1f x @ '' Y'' @ suffix))"
| "sizeof_fmt_loop (unit # units) num suffix =
     (if \<bar>num_value num\<bar> < 1000
      then (case to_float num of
              Inl e \<Rightarrow> Inl e
            | Inr x \<Rightarrow> Inr (fmt_3_1f x @ '' '' @ unit @ suffix))
      else (case to_float num of
              Inl e \<Rightarrow> Inl e
            | Inr x \<Rightarrow> sizeof_fmt_loop units (PyFloat (round_to_double (x / 1000))) suffix))"

definition sizeof_fmt_suffix :: "py_num \<Rightarrow> string \<Rightarrow> py_exception + string" where
  "sizeof_fmt_suffix num suffix =
     sizeof_fmt_loop ['''', ''K'', ''M'', ''G'', ''T'', ''P'', ''E'', ''Z''] num suffix"

text \<open>The call with the default argument \<open>suffix="B"\<close>.\<close>

definition sizeof_fmt :: "py_num \<Rightarrow> py_exception + string" where
  "sizeof_fmt num = sizeof_fmt_suffix num ''B''"

section \<open>\<open>api/files/files_radarr.py\<close>: \<open>BrowseRadarrFS.get\<close>\<close>

text \<open>
  \<open>browse_radarr_filesystem\<close> belongs to another package and is a parameter of the
  model: called with a path it raises, returns \<open>None\<close>, or returns a dictionary whose
  key \<open>directories\<close> holds a list of dictionaries. A dictionary is a map from keys to
  values; subscripting a missing key raises \<open>KeyError\<close>. The request parser hands
  \<open>get\<close> the query argument \<open>path\<close> (default: the empty string).
\<close>

type_synonym item = "string \<rightharpoonup> string"
type_synonym browse_result = "string \<rightharpoonup> item list"
type_synonym provider = "string \<Rightarrow> py_exception + browse_result option"

record entry =
  entry_name :: string
  entry_children :: bool
  entry_path :: string

text \<open>The body of the \<open>try\<close>: the provider call and \<open>raise ValueError\<close> on \<open>None\<close>.\<close>

definition get_try :: "provider \<Rightarrow> string \<Rightarrow> py_exception + browse_result" where
  "get_try browse_radarr_filesystem p =
     (case browse_radarr_filesystem p of
        Inl e \<Rightarrow> Inl e
      | Inr None \<Rightarrow> Inl ValueError
      | Inr (Some result) \<Rightarrow> Inr result)"

text \<open>The \<open>for\<close> loop appending one entry per item of \<open>result['directories']\<close>.\<close>

fun get_loop :: "item list \<Rightarrow> entry list \<Rightarrow> py_exception + entry list" where
  "get_loop [] data = Inr data"
| "get_loop (item # items) data =
     (case item ''name'' of
        None \<Rightarrow> Inl (KeyError ''name'')
      | Some n \<Rightarrow>
          (case item ''path'' of
             None \<Rightarrow> Inl (KeyError ''path'')
           | Some p \<Rightarrow>
               get_loop items
                 (data @ [\<lparr>entry_name = n, entry_children = True, entry_path = p\<rparr>])))"

definition get :: "provider \<Rightarrow> string \<Rightarrow> py_exception + entry list" where
  "get browse_radarr_filesystem p =
     (case get_try browse_radarr_filesystem p of
        Inl e \<Rightarrow> (if is_Exception e then Inr [] else Inl e)
      | Inr result \<Rightarrow>
          (case result ''directories'' of
             None \<Rightarrow> Inl (KeyError ''directories'')
           | Some items \<Rightarrow> get_loop items []))"

section \<open>\<open>utilities/backup.py\<close>: the file system and the process\<close>

text \<open>
  The backup functions act on the file system, the log and the hosting process. A path
  is a string. The file system maps a path to its node: a regular file with its content
  and modification time, or a directory with its modification time. A content is a run
  of bytes or, for a file that \<open>zipfile\<close> can read, the list of the archive's
  members. Parent directories are not tracked: a path has a node of its own. Symbolic
  links are followed; a link whose target is missing has no node, and the names of such
  links are known to the environment.
\<close>

type_synonym path = string

datatype content = Bytes string | ZipArchive "(string \<times> content) list"

datatype node = File content int | Dir int

record world =
  fs :: "(path \<times> node) list"
  logged :: "(string \<times> string) list"
  restarts :: nat

text \<open>
  What a call does to its caller: it returns a value, raises, or ends the process
  (\<open>os._exit\<close>). The world after the call comes with it.
\<close>

datatype 'a outcome = Returned 'a | Raised py_exception | Exited int

type_synonym 'a run = "'a outcome \<times> world"

text \<open>
  The operating system may refuse an operation that is possible in the model of the file
  system (permissions, a full disk, a locked or corrupt database, a missing parent
  directory). Which operations it refuses is a parameter, fixed during one call.
\<close>

datatype sysop =
    Copy path path
  | Remove path
  | Makedirs path
  | OpenWrite path
  | SqliteConnect path
  | SqliteBackup path path
  | ZipWrite path string
  | ExtractAll path

text \<open>
  \<open>app.get_args.args\<close> and \<open>app.config.settings\<close>, the process environment and the
  clocks. \<open>backup_retention\<close> is the value of \<open>int(settings.backup.retention)\<close>,
  \<open>None\<close> when \<open>int\<close> raises \<open>ValueError\<close>. Instants are POSIX timestamps in
  microseconds; \<open>utcoffset\<close> is the local zone's offset from UTC at an instant.
  \<open>zip_size\<close> and \<open>dir_size\<close> are the sizes that \<open>stat\<close> reports for an archive
  and for a directory; \<open>dangling\<close> lists the symbolic links whose target is missing.
\<close>

record args =
  config_dir :: path

record settings =
  backup_folder :: path
  backup_retention :: "int option"

record os_env =
  environ :: "string \<rightharpoonup> string"
  refused :: "sysop \<Rightarrow> bool"
  clock :: int
  utcoffset :: "int \<Rightarrow> int"
  now_string :: string
  date_string :: "int \<Rightarrow> string"
  zip_size :: "(string \<times> content) list \<Rightarrow> nat"
  dir_size :: "path \<Rightarrow> nat"
  dangling :: "path list"

subsection \<open>Sequencing, \<open>try\<close> and logging\<close>

definition then_do :: "'a run \<Rightarrow> ('a \<Rightarrow> world \<Rightarrow> 'b run) \<Rightarrow> 'b run" where
  "then_do r k =
     (case r of
        (Returned x, w) \<Rightarrow> k x w
      | (Raised e, w) \<Rightarrow> (Raised e, w)
      | (Exited c, w) \<Rightarrow> (Exited c, w))"

text \<open>\<open>try: body except cls: handler\<close>.\<close>

definition try_except ::
  "unit run \<Rightarrow> (py_exception \<Rightarrow> bool) \<Rightarrow> (py_exception \<Rightarrow> world \<Rightarrow> unit run)
     \<Rightarrow> unit run" where
  "try_except body cls handler =
     (case body of
        (Raised e, w) \<Rightarrow> (if cls e then handler e w else (Raised e, w))
      | (Returned x, w) \<Rightarrow> (Returned x, w)
      | (Exited c, w) \<Rightarrow> (Exited c, w))"

text \<open>\<open>try: body except cls: handler else: orelse\<close>.\<close>

definition try_except_else ::
  "unit run \<Rightarrow> (py_exception \<Rightarrow> bool) \<Rightarrow> (py_exception \<Rightarrow> world \<Rightarrow> unit run)
     \<Rightarrow> (world \<Rightarrow> unit run) \<Rightarrow> unit run" where
  "try_except_else body cls handler orelse =
     (case body of
        (Raised e, w) \<Rightarrow> (if cls e then handler e w else (Raised e, w))
      | (Returned x, w) \<Rightarrow> orelse w
      | (Exited c, w) \<Rightarrow> (Exited c, w))"

text \<open>\<open>try: body finally: cleanup\<close>: the cleanup runs, then the body's outcome stands
  unless the cleanup itself raised or left.\<close>

definition try_finally :: "'a run \<Rightarrow> (world \<Rightarrow> unit run) \<Rightarrow> 'a run" where
  "try_finally body cleanup =
     (case body of
        (out, w) \<Rightarrow>
          (case cleanup w of
             (Returned x, w') \<Rightarrow> (out, w')
           | (Raised e, w') \<Rightarrow> (Raised e, w')
           | (Exited c, w') \<Rightarrow> (Exited c, w')))"

definition logging :: "string \<Rightarrow> string \<Rightarrow> world \<Rightarrow> unit run" where
  "logging level msg w = (Returned (), w\<lparr>logged := logged w @ [(level, msg)]\<rparr>)"

subsection \<open>The calls into \<open>os\<close>, \<open>os.path\<close>, \<open>shutil\<close> and \<open>io\<close>\<close>

text \<open>\<open>posixpath.join\<close> of two components; \<open>join(a, b, c)\<close> is \<open>join(join(a, b), c)\<close>.\<close>

definition os_path_join :: "path \<Rightarrow> path \<Rightarrow> path" where
  "os_path_join a b =
     (if b \<noteq> [] \<and> hd b = CHR ''/'' then b
      else if a = [] \<or> last a = CHR ''/'' then a @ b
      else a @ ''/'' @ b)"

definition os_path_basename :: "path \<Rightarrow> path" where
  "os_path_basename p = rev (takeWhile (\<lambda>c. c \<noteq> CHR ''/'') (rev p))"

definition lookup :: "world \<Rightarrow> path \<Rightarrow> node option" where
  "lookup w p = map_of (fs w) p"

definition put :: "path \<Rightarrow> node \<Rightarrow> world \<Rightarrow> world" where
  "put p n w = w\<lparr>fs := AList.update p n (fs w)\<rparr>"

definition unlink :: "path \<Rightarrow> world \<Rightarrow> world" where
  "unlink p w = w\<lparr>fs := AList.delete p (fs w)\<rparr>"

definition os_path_isfile :: "world \<Rightarrow> path \<Rightarrow> bool" where
  "os_path_isfile w p = (case lookup w p of Some (File c t) \<Rightarrow> True | _ \<Rightarrow> False)"

definition os_path_isdir :: "world \<Rightarrow> path \<Rightarrow> bool" where
  "os_path_isdir w p = (case lookup w p of Some (Dir t) \<Rightarrow> True | _ \<Rightarrow> False)"

text \<open>\<open>os.makedirs\<close> raises when the path exists already or is empty.\<close>

definition os_makedirs :: "os_env \<Rightarrow> path \<Rightarrow> world \<Rightarrow> unit run" where
  "os_makedirs os p w =
     (if p = [] \<or> lookup w p \<noteq> None \<or> refused os (Makedirs p) then (Raised OSError, w)
      else (Returned (), put p (Dir (clock os)) w))"

text \<open>\<open>os.remove\<close> raises on a missing path and on a directory.\<close>

definition os_remove :: "os_env \<Rightarrow> path \<Rightarrow> world \<Rightarrow> unit run" where
  "os_remove os p w =
     (if os_path_isfile w p \<and> \<not> refused os (Remove p) then (Returned (), unlink p w)
      else (Raised OSError, w))"

text \<open>
  \<open>shutil.copy\<close>: the source must be a regular file; a destination that is a directory
  receives the file under the source's base name; copying a file onto itself raises
  \<open>SameFileError\<close>.
\<close>

definition copy_target :: "world \<Rightarrow> path \<Rightarrow> path \<Rightarrow> path" where
  "copy_target w src dst =
     (if os_path_isdir w dst then os_path_join dst (os_path_basename src) else dst)"

definition shutil_copy :: "os_env \<Rightarrow> path \<Rightarrow> path \<Rightarrow> world \<Rightarrow> unit run" where
  "shutil_copy os src dst w =
     (case lookup w src of
        Some (File c t) \<Rightarrow>
          (let target = copy_target w src dst
           in if target = src \<or> os_path_isdir w target \<or> refused os (Copy src dst)
              then (Raised OSError, w)
              else (Returned (), put target (File c (clock os)) w))
      | _ \<Rightarrow> (Raised OSError, w))"

text \<open>\<open>io.open(p, "w")\<close> creates or truncates the file; the \<open>write('')\<close> and the
  \<open>close()\<close> that follow leave it empty.\<close>

definition io_open_w :: "os_env \<Rightarrow> path \<Rightarrow> world \<Rightarrow> unit run" where
  "io_open_w os p w =
     (if os_path_isdir w p \<or> refused os (OpenWrite p) then (Raised OSError, w)
      else (Returned (), put p (File (Bytes []) (clock os)) w))"

text \<open>\<open>os.path.getmtime\<close> and \<open>os.path.getsize\<close>.\<close>

definition os_path_getmtime :: "world \<Rightarrow> path \<Rightarrow> py_exception + int" where
  "os_path_getmtime w p =
     (case lookup w p of
        Some (File c t) \<Rightarrow> Inr t
      | Some (Dir t) \<Rightarrow> Inr t
      | None \<Rightarrow> Inl OSError)"

definition os_path_getsize :: "os_env \<Rightarrow> world \<Rightarrow> path \<Rightarrow> py_exception + nat" where
  "os_path_getsize os w p =
     (case lookup w p of
        Some (File (Bytes b) t) \<Rightarrow> Inr (length b)
      | Some (File (ZipArchive ms) t) \<Rightarrow> Inr (zip_size os ms)
      | Some (Dir t) \<Rightarrow> Inr (dir_size os p)
      | None \<Rightarrow> Inl OSError)"

subsection \<open>Clocks\<close>

text \<open>Naive datetimes are counted in microseconds, like the timestamps:
  \<open>datetime.fromtimestamp\<close> gives local time, \<open>datetime.utcnow\<close> gives UTC.\<close>

definition fromtimestamp :: "os_env \<Rightarrow> int \<Rightarrow> int" where
  "fromtimestamp os t = t + utcoffset os t"

definition utcnow :: "os_env \<Rightarrow> int" where
  "utcnow os = clock os"

definition timedelta_days :: "int \<Rightarrow> int" where
  "timedelta_days d = d * 86400000000"

subsection \<open>\<open>get_backup_path\<close> and \<open>get_restore_path\<close>\<close>

definition get_backup_path :: "settings \<Rightarrow> os_env \<Rightarrow> world \<Rightarrow> path run" where
  "get_backup_path st os w =
     (let backup_dir = backup_folder st
      in then_do (if \<not> os_path_isdir w backup_dir then os_makedirs os backup_dir w
                  else (Returned (), w))
           (\<lambda>_ w1. then_do (logging ''DEBUG'' (''Backup directory path is: '' @ backup_dir) w1)
              (\<lambda>_ w2. (Returned backup_dir, w2))))"

definition get_restore_path :: "args \<Rightarrow> os_env \<Rightarrow> world \<Rightarrow> path run" where
  "get_restore_path ar os w =
     (let restore_dir = os_path_join (config_dir ar) ''restore''
      in then_do (if \<not> os_path_isdir w restore_dir then os_makedirs os restore_dir w
                  else (Returned (), w))
           (\<lambda>_ w1. then_do (logging ''DEBUG'' (''Restore directory path is: '' @ restore_dir) w1)
              (\<lambda>_ w2. (Returned restore_dir, w2))))"

subsection \<open>\<open>restore_from_backup\<close>\<close>

text \<open>The four paths of the restore: the staged pair and the live pair.\<close>

definition staged_config :: "args \<Rightarrow> path" where
  "staged_config ar = os_path_join (os_path_join (config_dir ar) ''restore'') ''config.ini''"

definition staged_database :: "args \<Rightarrow> path" where
  "staged_database ar = os_path_join (os_path_join (config_dir ar) ''restore'') ''bazarr.db''"

definition live_config :: "args \<Rightarrow> path" where
  "live_config ar = os_path_join (os_path_join (config_dir ar) ''config'') ''config.ini''"

definition live_database :: "args \<Rightarrow> path" where
  "live_database ar = os_path_join (os_path_join (config_dir ar) ''db'') ''bazarr.db''"

definition restart_file :: "args \<Rightarrow> path" where
  "restart_file ar = os_path_join (config_dir ar) ''bazarr.restart''"

text \<open>The body of each of the two \<open>try\<close> statements: \<open>shutil.copy\<close>, then
  \<open>os.remove\<close> of the staged file.\<close>

definition copy_and_remove :: "os_env \<Rightarrow> path \<Rightarrow> path \<Rightarrow> world \<Rightarrow> unit run" where
  "copy_and_remove os src dst w =
     then_do (shutil_copy os src dst w) (\<lambda>_. os_remove os src)"

text \<open>The \<open>else\<close> clause of the database copy: the \<open>-shm\<close> and \<open>-wal\<close> files go.\<close>

definition remove_side_files :: "os_env \<Rightarrow> path \<Rightarrow> world \<Rightarrow> unit run" where
  "remove_side_files os dest_database_path w =
     try_except
       (then_do
          (if os_path_isfile w (dest_database_path @ ''-shm'')
           then os_remove os (dest_database_path @ ''-shm'') w
           else (Returned (), w))
          (\<lambda>_ w1. if os_path_isfile w1 (dest_database_path @ ''-wal'')
                   then os_remove os (dest_database_path @ ''-wal'') w1
                   else (Returned (), w1)))
       is_OSError
       (\<lambda>e. logging ''ERROR'' ''Unable to delete SHM and WAL file.'')"

text \<open>The success step: the log record, the sentinel file and \<open>os._exit(0)\<close>.\<close>

definition request_restart :: "args \<Rightarrow> os_env \<Rightarrow> world \<Rightarrow> unit run" where
  "request_restart ar os w =
     then_do (logging ''INFO'' ''Backup restored successfully. Bazarr will restart.'' w)
       (\<lambda>_ w1. try_except_else
          (io_open_w os (os_path_join (config_dir ar) ''bazarr.restart'') w1)
          is_Exception
          (\<lambda>e. logging ''ERROR'' (''BAZARR Cannot create restart file: '' @ repr e))
          (\<lambda>w2. then_do (logging ''INFO'' ''Bazarr is being restarted...'' w2)
             (\<lambda>_ w3. (Exited 0, w3))))"

text \<open>The branch taken when both staged files are present.\<close>

definition restore_staged ::
  "args \<Rightarrow> os_env \<Rightarrow> path \<Rightarrow> path \<Rightarrow> path \<Rightarrow> path \<Rightarrow> world \<Rightarrow> unit run" where
  "restore_staged ar os restore_config_path dest_config_path restore_database_path
       dest_database_path w =
     then_do
       (try_except (copy_and_remove os restore_config_path dest_config_path w)
          is_OSError
          (\<lambda>e. logging ''ERROR''
             (''Unable to restore or delete config.ini to '' @ dest_config_path)))
       (\<lambda>_ w1. then_do
          (try_except_else (copy_and_remove os restore_database_path dest_database_path w1)
             is_OSError
             (\<lambda>e. logging ''ERROR'' (''Unable to restore or delete db to '' @ dest_database_path))
             (remove_side_files os dest_database_path))
          (\<lambda>_ w2. request_restart ar os w2))"

text \<open>The two removals after the \<open>if\<close> statement.\<close>

definition restore_cleanup :: "os_env \<Rightarrow> path \<Rightarrow> path \<Rightarrow> path \<Rightarrow> path \<Rightarrow> world \<Rightarrow> unit run" where
  "restore_cleanup os restore_config_path dest_config_path restore_database_path
       dest_database_path w =
     then_do
       (try_except (os_remove os restore_config_path w) is_OSError
          (\<lambda>e. logging ''ERROR'' (''Unable to delete '' @ dest_config_path)))
       (\<lambda>_ w1. try_except (os_remove os restore_database_path w1) is_OSError
          (\<lambda>e. logging ''ERROR'' (''Unable to delete '' @ dest_database_path)))"

text \<open>
  The \<open>if\<close> statement yields whether control reaches the statements after it: the
  branch without any staged file returns from the function.
\<close>

definition restore_from_backup :: "args \<Rightarrow> os_env \<Rightarrow> world \<Rightarrow> unit run" where
  "restore_from_backup ar os w =
     then_do (get_restore_path ar os w)
       (\<lambda>rp1 w1.
          let restore_config_path = os_path_join rp1 ''config.ini'';
              dest_config_path =
                os_path_join (os_path_join (config_dir ar) ''config'') ''config.ini''
          in then_do (get_restore_path ar os w1)
               (\<lambda>rp2 w2.
                  let restore_database_path = os_path_join rp2 ''bazarr.db'';
                      dest_database_path =
                        os_path_join (os_path_join (config_dir ar) ''db'') ''bazarr.db''
                  in then_do
                       (if os_path_isfile w2 restore_config_path
                           \<and> os_path_isfile w2 restore_database_path
                        then then_do
                               (restore_staged ar os restore_config_path dest_config_path
                                  restore_database_path dest_database_path w2)
                               (\<lambda>_ w3. (Returned True, w3))
                        else if os_path_isfile w2 restore_config_path
                                \<or> os_path_isfile w2 restore_database_path
                        then then_do
                               (logging ''DEBUG''
                                  ''Cannot restore a partial backup. You must have both config and database.''
                                  w2)
                               (\<lambda>_ w3. (Returned True, w3))
                        else then_do (logging ''DEBUG'' ''No backup to restore.'' w2)
                               (\<lambda>_ w3. (Returned False, w3)))
                       (\<lambda>proceed w3.
                          if proceed
                          then restore_cleanup os restore_config_path dest_config_path
                                 restore_database_path dest_database_path w3
                          else (Returned (), w3))))"

subsection \<open>\<open>prepare_restore\<close>\<close>

text \<open>
  \<open>ZipFile(p, 'r')\<close> raises \<open>BadZipFile\<close> on a file that is not an archive.
  \<open>extractall\<close> writes every member under the target directory; member names are
  taken as relative file names, as those written by \<open>backup_to_zip\<close> are.
\<close>

definition zipfile_open_r :: "world \<Rightarrow> path \<Rightarrow> py_exception + (string \<times> content) list" where
  "zipfile_open_r w p =
     (case lookup w p of
        Some (File (ZipArchive ms) t) \<Rightarrow> Inr ms
      | Some (File (Bytes b) t) \<Rightarrow> Inl BadZipFile
      | _ \<Rightarrow> Inl OSError)"

fun extract_members :: "os_env \<Rightarrow> path \<Rightarrow> (string \<times> content) list \<Rightarrow> world \<Rightarrow> unit run" where
  "extract_members os dir [] w = (Returned (), w)"
| "extract_members os dir (m # ms) w =
     (let target = os_path_join dir (fst m)
      in if os_path_isdir w target then (Raised OSError, w)
         else extract_members os dir ms (put target (File (snd m) (clock os)) w))"

definition zipfile_extractall ::
  "os_env \<Rightarrow> path \<Rightarrow> path \<Rightarrow> (string \<times> content) list \<Rightarrow> world \<Rightarrow> unit run" where
  "zipfile_extractall os zip_path dir ms w =
     (if refused os (ExtractAll zip_path) then (Raised OSError, w)
      else extract_members os dir ms w)"

text \<open>The \<open>with\<close> statement of the inner \<open>try\<close>: the archive is opened, then
  \<open>get_restore_path()\<close> is evaluated, then the members are extracted.\<close>

definition extract_archive :: "args \<Rightarrow> os_env \<Rightarrow> path \<Rightarrow> world \<Rightarrow> unit run" where
  "extract_archive ar os dest_zip_file_path w =
     (case zipfile_open_r w dest_zip_file_path of
        Inl e \<Rightarrow> (Raised e, w)
      | Inr ms \<Rightarrow>
          then_do (get_restore_path ar os w)
            (\<lambda>rp w1. zipfile_extractall os dest_zip_file_path rp ms w1))"

text \<open>
  The \<open>try\<close> / \<open>except OSError\<close> / \<open>else\<close> of \<open>prepare_restore\<close>; its value is the
  variable \<open>success\<close>. In the \<open>else\<close> clause \<open>success = True\<close> follows the inner
  \<open>try\<close> statement, whose handler catches \<open>BadZipFile\<close>.
\<close>

definition copy_and_extract :: "args \<Rightarrow> os_env \<Rightarrow> path \<Rightarrow> path \<Rightarrow> world \<Rightarrow> bool run" where
  "copy_and_extract ar os src_zip_file_path dest_zip_file_path w =
     (case shutil_copy os src_zip_file_path dest_zip_file_path w of
        (Raised e, w1) \<Rightarrow>
          (if is_OSError e
           then then_do
                  (logging ''ERROR'' (''Unable to copy backup archive to '' @ dest_zip_file_path) w1)
                  (\<lambda>_ w2. (Returned False, w2))
           else (Raised e, w1))
      | (Returned x, w1) \<Rightarrow>
          then_do
            (try_except (extract_archive ar os dest_zip_file_path w1) is_BadZipFile
               (\<lambda>e. logging ''ERROR''
                  (''Unable to extract files from backup archive '' @ dest_zip_file_path)))
            (\<lambda>_ w2. (Returned True, w2))
      | (Exited c, w1) \<Rightarrow> (Exited c, w1))"

text \<open>\<open>webserver.restart()\<close> belongs to \<open>app.server\<close>; the model counts the requests.\<close>

definition webserver_restart :: "world \<Rightarrow> unit run" where
  "webserver_restart w = (Returned (), w\<lparr>restarts := restarts w + 1\<rparr>)"

definition prepare_restore :: "settings \<Rightarrow> args \<Rightarrow> os_env \<Rightarrow> string \<Rightarrow> world \<Rightarrow> unit run" where
  "prepare_restore st ar os filename w =
     then_do (get_backup_path st os w)
       (\<lambda>bp w1.
          let src_zip_file_path = os_path_join bp filename
          in then_do (get_restore_path ar os w1)
               (\<lambda>rp w2.
                  let dest_zip_file_path = os_path_join rp filename
                  in then_do
                       (try_finally
                          (copy_and_extract ar os src_zip_file_path dest_zip_file_path w2)
                          (\<lambda>w3. try_except (os_remove os dest_zip_file_path w3) is_OSError
                             (\<lambda>e. logging ''ERROR''
                                (''Unable to delete backup archive '' @ dest_zip_file_path))))
                       (\<lambda>success w4.
                          if success
                          then then_do (logging ''DEBUG'' ''time to restart'' w4)
                                 (\<lambda>_ w5. webserver_restart w5)
                          else (Returned (), w4))))"

subsection \<open>\<open>backup_to_zip\<close>\<close>

text \<open>
  The SQLite engine is an external collaborator. \<open>sqlite3.connect\<close> creates a missing
  database file; the online backup leaves at the destination a snapshot with the
  content of the source, or raises (a locked or corrupt database is a refusal of the
  environment). The two \<open>close()\<close> calls have no effect on the file system.
\<close>

definition sqlite3_connect :: "os_env \<Rightarrow> path \<Rightarrow> world \<Rightarrow> unit run" where
  "sqlite3_connect os p w =
     (if os_path_isdir w p \<or> refused os (SqliteConnect p)
      then (Raised (OtherException ''sqlite3.OperationalError''), w)
      else if lookup w p = None then (Returned (), put p (File (Bytes []) (clock os)) w)
      else (Returned (), w))"

definition sqlite3_backup :: "os_env \<Rightarrow> path \<Rightarrow> path \<Rightarrow> world \<Rightarrow> unit run" where
  "sqlite3_backup os src dst w =
     (case lookup w src of
        Some (File c t) \<Rightarrow>
          (if refused os (SqliteBackup src dst)
           then (Raised (OtherException ''sqlite3.DatabaseError''), w)
           else (Returned (), put dst (File c (clock os)) w))
      | _ \<Rightarrow> (Raised (OtherException ''sqlite3.OperationalError''), w))"

text \<open>The body of the first \<open>try\<close>; its value is \<open>database_backup_file\<close>.\<close>

definition snapshot_try :: "settings \<Rightarrow> os_env \<Rightarrow> path \<Rightarrow> world \<Rightarrow> path run" where
  "snapshot_try st os database_src_file w =
     then_do (sqlite3_connect os database_src_file w)
       (\<lambda>_ w1. then_do (get_backup_path st os w1)
          (\<lambda>bp w2.
             let database_backup_file = os_path_join bp ''bazarr_temp.db''
             in then_do (sqlite3_connect os database_backup_file w2)
                  (\<lambda>_ w3. then_do (sqlite3_backup os database_src_file database_backup_file w3)
                     (\<lambda>_ w4. (Returned database_backup_file, w4)))))"

text \<open>The first \<open>try\<close> statement: on any \<open>Exception\<close> the variable becomes \<open>None\<close>.\<close>

definition snapshot_database :: "settings \<Rightarrow> os_env \<Rightarrow> path \<Rightarrow> world \<Rightarrow> path option run" where
  "snapshot_database st os database_src_file w =
     (case snapshot_try st os database_src_file w of
        (Returned f, w1) \<Rightarrow> (Returned (Some f), w1)
      | (Raised e, w1) \<Rightarrow>
          (if is_Exception e
           then then_do (logging ''ERROR'' ''Unable to backup database file.'' w1)
                  (\<lambda>_ w2. (Returned None, w2))
           else (Raised e, w1))
      | (Exited c, w1) \<Rightarrow> (Exited c, w1))"

text \<open>
  \<open>ZipFile(p, 'w')\<close> creates or truncates the archive. Leaving the \<open>with\<close> block
  closes the archive, also when a \<open>write\<close> raised: the file stays under its name with
  the members written so far.
\<close>

definition zipfile_open_w :: "os_env \<Rightarrow> path \<Rightarrow> world \<Rightarrow> unit run" where
  "zipfile_open_w os p w =
     (if os_path_isdir w p \<or> refused os (OpenWrite p) then (Raised OSError, w)
      else (Returned (), put p (File (ZipArchive []) (clock os)) w))"

text \<open>
  The zip format stores the local time of the modification, from 1980 to 2107:
  \<open>ZipFile.write\<close> raises \<open>ValueError\<close> on an earlier time and \<open>struct.error\<close> on
  a later one. The two bounds are the first instants of 1980 and of 2108, in
  microseconds.
\<close>

definition zip_epoch :: int where
  "zip_epoch = 315532800000000"

definition zip_horizon :: int where
  "zip_horizon = 4354819200000000"

definition zip_date_check :: "os_env \<Rightarrow> int \<Rightarrow> py_exception option" where
  "zip_date_check os t =
     (if fromtimestamp os t < zip_epoch then Some ValueError
      else if zip_horizon \<le> fromtimestamp os t then Some (OtherException ''struct.error'')
      else None)"

text \<open>
  \<open>ZipFile.write(filename, arcname)\<close>: \<open>os.stat\<close> of the source (\<open>OSError\<close> when it
  is missing), the check of its date, then the new member: the content of a regular
  file under \<open>arcname\<close>, or for a directory an empty entry under \<open>arcname\<close> followed
  by a slash. A directory dated after 2107 is entered in the archive's table before its
  header is packed, so closing the archive fails as well and the file left behind is not
  a zip file (its bytes are not modelled: the empty run stands for them).
\<close>

definition zipfile_write :: "os_env \<Rightarrow> path \<Rightarrow> path \<Rightarrow> string \<Rightarrow> world \<Rightarrow> unit run" where
  "zipfile_write os zip_path filename arcname w =
     (case lookup w zip_path of
        Some (File (ZipArchive ms) t') \<Rightarrow>
          (case lookup w filename of
             None \<Rightarrow> (Raised OSError, w)
           | Some (File c t) \<Rightarrow>
               (case zip_date_check os t of
                  Some e \<Rightarrow> (Raised e, w)
                | None \<Rightarrow>
                    (if refused os (ZipWrite zip_path arcname) then (Raised OSError, w)
                     else (Returned (),
                           put zip_path (File (ZipArchive (ms @ [(arcname, c)])) (clock os)) w)))
           | Some (Dir t) \<Rightarrow>
               (case zip_date_check os t of
                  Some e \<Rightarrow>
                    (if e = ValueError then (Raised e, w)
                     else (Raised e, put zip_path (File (Bytes []) (clock os)) w))
                | None \<Rightarrow>
                    (if refused os (ZipWrite zip_path arcname) then (Raised OSError, w)
                     else (Returned (),
                           put zip_path
                             (File (ZipArchive (ms @ [(arcname @ ''/'', Bytes [])])) (clock os))
                             w))))
      | _ \<Rightarrow> (Raised OSError, w))"

text \<open>Python's truth value of \<open>database_backup_file\<close>: \<open>None\<close> and the empty string
  are false.\<close>

fun truthy :: "path option \<Rightarrow> bool" where
  "truthy None = False"
| "truthy (Some p) = (p \<noteq> [])"

text \<open>\<open>os.remove(None)\<close> raises \<open>TypeError\<close>, which is not an \<open>OSError\<close>.\<close>

fun os_remove_arg :: "os_env \<Rightarrow> path option \<Rightarrow> world \<Rightarrow> unit run" where
  "os_remove_arg os None w = (Raised TypeError, w)"
| "os_remove_arg os (Some p) w = os_remove os p w"

fun repr_arg :: "path option \<Rightarrow> string" where
  "repr_arg None = ''None''"
| "repr_arg (Some p) = p"

definition backup_filename :: "os_env \<Rightarrow> string \<Rightarrow> string" where
  "backup_filename os version = ''bazarr_backup_v'' @ version @ ''_'' @ now_string os @ ''.zip''"

text \<open>The \<open>with ZipFile(...) as backupZip\<close> block.\<close>

definition write_archive ::
  "settings \<Rightarrow> os_env \<Rightarrow> string \<Rightarrow> path option \<Rightarrow> path \<Rightarrow> world \<Rightarrow> unit run" where
  "write_archive st os name database_backup_file config_file w =
     then_do (get_backup_path st os w)
       (\<lambda>bp w1.
          let zip_path = os_path_join bp name
          in then_do (zipfile_open_w os zip_path w1)
               (\<lambda>_ w2. then_do
                  (if truthy database_backup_file
                   then zipfile_write os zip_path (the database_backup_file) ''bazarr.db'' w2
                   else logging ''DEBUG''
                          ''Database file is not included in backup. See previous exception'' w2)
                  (\<lambda>_ w3. zipfile_write os zip_path config_file ''config.ini'' w3)))"

definition backup_to_zip :: "settings \<Rightarrow> args \<Rightarrow> os_env \<Rightarrow> world \<Rightarrow> unit run" where
  "backup_to_zip st ar os w =
     (case environ os ''BAZARR_VERSION'' of
        None \<Rightarrow> (Raised (KeyError ''BAZARR_VERSION''), w)
      | Some version \<Rightarrow>
          then_do (logging ''DEBUG'' (''Backup filename will be: '' @ backup_filename os version) w)
            (\<lambda>_ w1.
               let database_src_file =
                     os_path_join (os_path_join (config_dir ar) ''db'') ''bazarr.db''
               in then_do
                    (logging ''DEBUG''
                       (''Database file path to backup is: '' @ database_src_file) w1)
                    (\<lambda>_ w2. then_do (snapshot_database st os database_src_file w2)
                       (\<lambda>database_backup_file w3.
                          let config_file =
                                os_path_join (os_path_join (config_dir ar) ''config'')
                                  ''config.ini''
                          in then_do
                               (logging ''DEBUG''
                                  (''Config file path to backup is: '' @ config_file) w3)
                               (\<lambda>_ w4. then_do
                                  (write_archive st os (backup_filename os version)
                                     database_backup_file config_file w4)
                                  (\<lambda>_ w5. try_except
                                     (os_remove_arg os database_backup_file w5) is_OSError
                                     (\<lambda>e. logging ''ERROR''
                                        (''Unable to delete temporary database backup file: ''
                                           @ repr_arg database_backup_file))))))))"

subsection \<open>\<open>get_backup_files\<close>\<close>

text \<open>
  \<open>glob\<close> with the pattern \<open>bazarr_backup_v*.zip\<close> in the backup directory: the
  star matches any run of characters without a separator. It lists every name that
  matches, whether a regular file, a directory or a symbolic link whose target is
  missing. The directory part is taken literally (a folder name with glob
  metacharacters is outside the model).
\<close>

definition fnmatch_backup :: "path \<Rightarrow> path \<Rightarrow> bool" where
  "fnmatch_backup stem p =
     (take (length stem) p = stem
      \<and> (let r = drop (length stem) p
         in 4 \<le> length r \<and> drop (length r - 4) r = ''.zip'' \<and> CHR ''/'' \<notin> set r))"

definition glob_backup_files :: "os_env \<Rightarrow> world \<Rightarrow> path \<Rightarrow> path list" where
  "glob_backup_files os w backup_dir =
     (let stem = os_path_join backup_dir ''bazarr_backup_v''
      in filter (fnmatch_backup stem) (remdups (map fst (fs w) @ dangling os)))"

text \<open>\<open>file_list.sort(key=os.path.getmtime)\<close>: the keys first, then a stable sort.\<close>

fun getmtime_keys :: "world \<Rightarrow> path list \<Rightarrow> py_exception + (int \<times> path) list" where
  "getmtime_keys w [] = Inr []"
| "getmtime_keys w (p # ps) =
     (case os_path_getmtime w p of
        Inl e \<Rightarrow> Inl e
      | Inr t \<Rightarrow>
          (case getmtime_keys w ps of
             Inl e \<Rightarrow> Inl e
           | Inr keyed \<Rightarrow> Inr ((t, p) # keyed)))"

definition sorted_backup_files :: "settings \<Rightarrow> os_env \<Rightarrow> world \<Rightarrow> path list run" where
  "sorted_backup_files st os w =
     then_do (get_backup_path st os w)
       (\<lambda>bp w1.
          case getmtime_keys w1 (glob_backup_files os w1 bp) of
            Inl e \<Rightarrow> (Raised e, w1)
          | Inr keyed \<Rightarrow> (Returned (map snd (sort_key fst keyed)), w1))"

record backup_entry =
  backup_type :: string
  backup_name :: string
  backup_size :: string
  backup_date :: string

datatype backup_listing = Paths "path list" | Details "backup_entry list"

fun backup_details :: "os_env \<Rightarrow> world \<Rightarrow> path list \<Rightarrow> py_exception + backup_entry list" where
  "backup_details os w [] = Inr []"
| "backup_details os w (x # xs) =
     (case os_path_getsize os w x of
        Inl e \<Rightarrow> Inl e
      | Inr n \<Rightarrow>
          (case sizeof_fmt (PyInt (int n)) of
             Inl e \<Rightarrow> Inl e
           | Inr size_text \<Rightarrow>
               (case os_path_getmtime w x of
                  Inl e \<Rightarrow> Inl e
                | Inr t \<Rightarrow>
                    (case backup_details os w xs of
                       Inl e \<Rightarrow> Inl e
                     | Inr ds \<Rightarrow>
                         Inr (\<lparr>backup_type = ''backup'', backup_name = os_path_basename x,
                               backup_size = size_text,
                               backup_date = date_string os (fromtimestamp os t)\<rparr> # ds)))))"

definition get_backup_files :: "settings \<Rightarrow> os_env \<Rightarrow> bool \<Rightarrow> world \<Rightarrow> backup_listing run" where
  "get_backup_files st os fullpath w =
     then_do (sorted_backup_files st os w)
       (\<lambda>file_list w1.
          if fullpath then (Returned (Paths file_list), w1)
          else (case backup_details os w1 file_list of
                  Inl e \<Rightarrow> (Raised e, w1)
                | Inr ds \<Rightarrow> (Returned (Details ds), w1)))"

subsection \<open>\<open>backup_rotation\<close>\<close>

definition str_int :: "int \<Rightarrow> string" where
  "str_int i = (if i < 0 then ''-'' @ str_nat (nat (- i)) else str_nat (nat i))"

fun rotation_loop :: "os_env \<Rightarrow> int \<Rightarrow> path list \<Rightarrow> world \<Rightarrow> unit run" where
  "rotation_loop os days [] w = (Returned (), w)"
| "rotation_loop os days (file # files) w =
     (case os_path_getmtime w file of
        Inl e \<Rightarrow> (Raised e, w)
      | Inr t \<Rightarrow>
          (if fromtimestamp os t + timedelta_days days < utcnow os
           then then_do (logging ''DEBUG'' (''Deleting old backup file '' @ file) w)
                  (\<lambda>_ w1. then_do
                     (try_except (os_remove os file w1) is_OSError
                        (\<lambda>e. logging ''DEBUG'' (''Unable to delete backup file '' @ file)))
                     (\<lambda>_ w2. rotation_loop os days files w2))
           else rotation_loop os days files w))"

text \<open>\<open>get_backup_files()\<close> is called with the default \<open>fullpath=True\<close> and yields the
  list of paths.\<close>

definition backup_rotation :: "settings \<Rightarrow> os_env \<Rightarrow> world \<Rightarrow> unit run" where
  "backup_rotation st os w =
     (case backup_retention st of
        None \<Rightarrow>
          logging ''ERROR''
            ''Backup retention time must be a valid integer. Please fix this in your settings.'' w
      | Some days \<Rightarrow>
          then_do (get_backup_files st os True w)
            (\<lambda>listing w1.
               case listing of
                 Details ds \<Rightarrow> (Raised TypeError, w1)
               | Paths backup_files \<Rightarrow>
                   then_do
                     (logging ''DEBUG''
                        (''Cleaning up backup files older than '' @ str_int days @ '' days'') w1)
                     (\<lambda>_ w2. then_do (rotation_loop os days backup_files w2)
                        (\<lambda>_ w3. logging ''DEBUG'' ''Finished cleaning up old backup files'' w3))))"

subsection \<open>\<open>delete_backup_file\<close>\<close>

definition delete_backup_file :: "settings \<Rightarrow> os_env \<Rightarrow> string \<Rightarrow> world \<Rightarrow> bool run" where
  "delete_backup_file st os name w =
     then_do (get_backup_path st os w)
       (\<lambda>bp w1.
          let backup_file_path = os_path_join bp name
          in case os_remove os backup_file_path w1 of
               (Returned x, w2) \<Rightarrow> (Returned True, w2)
             | (Raised e, w2) \<Rightarrow>
                 (if is_OSError e
                  then then_do
                         (logging ''DEBUG'' (''Unable to delete backup file '' @ backup_file_path) w2)
                         (\<lambda>_ w3. (Returned False, w3))
                  else (Raised e, w2))
             | (Exited c, w2) \<Rightarrow> (Exited c, w2))"

section \<open>Auxiliary definitions for the statements\<close>

text \<open>A directory name as \<open>os.path.join\<close> prefixes it to a relative component.\<close>

definition dir_prefix :: "path \<Rightarrow> path" where
  "dir_prefix d = (if d = [] \<or> last d = CHR ''/'' then d else d @ ''/'')"

text \<open>Concrete installations on which the functions are evaluated.\<close>

definition example_args :: args where
  "example_args = \<lparr>config_dir = ''/cfg''\<rparr>"

definition example_os :: os_env where
  "example_os =
     \<lparr>environ = [''BAZARR_VERSION'' \<mapsto> ''1.0''], refused = (\<lambda>_. False), clock = 100,
      utcoffset = (\<lambda>_. 0), now_string = ''2022.01.01_00.00.00'',
      date_string = (\<lambda>_. ''Jan 01 2022''), zip_size = (\<lambda>_. 0),
      dir_size = (\<lambda>_. 4096), dangling = []\<rparr>"

definition world_partial :: world where
  "world_partial =
     \<lparr>fs = [(''/cfg/restore'', Dir 5),
            (''/cfg/restore/config.ini'', File (Bytes ''staged config'') 50),
            (''/cfg/config/config.ini'', File (Bytes ''live config'') 10),
            (''/cfg/db/bazarr.db'', File (Bytes ''live db'') 10)],
      logged = [], restarts = 0\<rparr>"

definition world_staged :: world where
  "world_staged =
     \<lparr>fs = [(''/cfg/restore'', Dir 5),
            (''/cfg/restore/config.ini'', File (Bytes ''staged config'') 50),
            (''/cfg/restore/bazarr.db'', File (Bytes ''staged db'') 50),
            (''/cfg/config/config.ini'', File (Bytes ''live config'') 10),
            (''/cfg/db/bazarr.db'', File (Bytes ''live db'') 10)],
      logged = [], restarts = 0\<rparr>"

definition example_os_copy_refused :: os_env where
  "example_os_copy_refused =
     example_os\<lparr>refused := (\<lambda>x. x = Copy ''/cfg/restore/config.ini'' ''/cfg/config/config.ini'')\<rparr>"

definition example_os_no_restart :: os_env where
  "example_os_no_restart =
     example_os\<lparr>refused := (\<lambda>x. x = Copy ''/cfg/restore/config.ini'' ''/cfg/config/config.ini''
        \<or> x = OpenWrite ''/cfg/bazarr.restart'')\<rparr>"

definition example_settings :: settings where
  "example_settings = \<lparr>backup_folder = ''/backup'', backup_retention = Some 1\<rparr>"

definition example_archive :: path where
  "example_archive = ''/backup/bazarr_backup_v1.0_2021.12.31_00.00.00.zip''"

definition world_live :: world where
  "world_live =
     \<lparr>fs = [(''/backup'', Dir 5),
            (''/cfg/restore'', Dir 5),
            (''/backup/bazarr_backup_v1.0_2021.12.31_00.00.00.zip'',
               File (Bytes ''truncated'') 100800000000),
            (''/cfg/config/config.ini'', File (Bytes ''live config'') 1600000000000000),
            (''/cfg/db/bazarr.db'', File (Bytes ''live db'') 1600000000000000)],
      logged = [], restarts = 0\<rparr>"

definition example_os_snapshot_fails :: os_env where
  "example_os_snapshot_fails =
     example_os\<lparr>refused := (\<lambda>x. x = SqliteBackup ''/cfg/db/bazarr.db'' ''/backup/bazarr_temp.db'')\<rparr>"

definition example_os_west :: os_env where
  "example_os_west = example_os\<lparr>clock := 172800000000, utcoffset := (\<lambda>_. - 18000000000)\<rparr>"

definition example_os_east :: os_env where
  "example_os_east = example_os\<lparr>clock := 190800000000, utcoffset := (\<lambda>_. 7200000000)\<rparr>"




text \<open>A run that depends on the file system only, not on what has been logged.\<close>

definition fs_determined :: "(world \<Rightarrow> 'a run) \<Rightarrow> bool" where
  "fs_determined P =
     (\<forall>w w'. fs w = fs w' \<longrightarrow> fst (P w) = fst (P w') \<and> fs (snd (P w)) = fs (snd (P w')))"

text \<open>A host whose clock shows the first instant of 2022, an installation without
  \<open>config.ini\<close>, and a backup folder that holds a symbolic link to a missing file.\<close>

definition example_os_2022 :: os_env where
  "example_os_2022 = example_os\<lparr>clock := 1640995200000000\<rparr>"

definition world_no_config :: world where
  "world_no_config =
     \<lparr>fs = [(''/backup'', Dir 5),
            (''/cfg/db/bazarr.db'', File (Bytes ''live db'') 1600000000000000)],
      logged = [], restarts = 0\<rparr>"

definition example_os_dangling :: os_env where
  "example_os_dangling = example_os\<lparr>dangling := [''/backup/bazarr_backup_v0.9_link.zip'']\<rparr>"

section \<open>Properties of the Radarr browser\<close>

lemma get_loop_children:
  "get_loop items acc = Inr data \<Longrightarrow> \<forall>d \<in> set acc. entry_children d
   \<Longrightarrow> \<forall>d \<in> set data. entry_children d"
  by (induction items arbitrary: acc) (auto split: option.splits)

text \<open>
  C9: whenever the provider returns \<open>None\<close> or raises an error (an instance of
  \<open>Exception\<close>), \<open>get\<close> returns the empty list and raises nothing; and every entry
  of a list that \<open>get\<close> returns has \<open>children\<close> set to \<open>True\<close>.
\<close>

theorem get_fail_soft:
  "((provider p = Inr None \<or> (\<exists>e. provider p = Inl e \<and> is_Exception e))
      \<longrightarrow> get provider p = Inr [])
   \<and> (\<forall>data. get provider p = Inr data \<longrightarrow> (\<forall>d \<in> set data. entry_children d))"
proof (intro conjI impI allI)
  assume "provider p = Inr None \<or> (\<exists>e. provider p = Inl e \<and> is_Exception e)"
  then show "get provider p = Inr []"
    by (auto simp: get_def get_try_def)
next
  fix data
  assume ret: "get provider p = Inr data"
  show "\<forall>d \<in> set data. entry_children d"
  proof (cases "get_try provider p")
    case (Inl e)
    with ret have "data = []"
      by (simp add: get_def split: if_splits)
    then show ?thesis by simp
  next
    case (Inr result)
    with ret obtain items where "get_loop items [] = Inr data"
      by (auto simp: get_def split: option.splits)
    then show ?thesis
      using get_loop_children [of items "[]" data] by simp
  qed
qed

theorem get_fail_soft_witness:
  "get (\<lambda>_. Inr None) ''/movies'' = Inr []
   \<and> get (\<lambda>_. Inl (OtherException ''ConnectionError'')) ''/movies'' = Inr []
   \<and> get (\<lambda>_. Inr (Some [''directories'' \<mapsto>
            [[''name'' \<mapsto> ''a'', ''path'' \<mapsto> ''/movies/a''],
             [''name'' \<mapsto> ''b'', ''path'' \<mapsto> ''/movies/b'']]])) ''/movies''
       = Inr [\<lparr>entry_name = ''a'', entry_children = True, entry_path = ''/movies/a''\<rparr>,
              \<lparr>entry_name = ''b'', entry_children = True, entry_path = ''/movies/b''\<rparr>]
   \<and> entry_children \<lparr>entry_name = ''a'', entry_children = True, entry_path = ''/movies/a''\<rparr>
   \<and> entry_children \<lparr>entry_name = ''b'', entry_children = True, entry_path = ''/movies/b''\<rparr>"
  using get_fail_soft [of "\<lambda>_. Inr None" "''/movies''"]
    get_fail_soft [of "\<lambda>_. Inl (OtherException ''ConnectionError'')" "''/movies''"]
    get_fail_soft [of "\<lambda>_. Inr (Some [''directories'' \<mapsto>
            [[''name'' \<mapsto> ''a'', ''path'' \<mapsto> ''/movies/a''],
             [''name'' \<mapsto> ''b'', ''path'' \<mapsto> ''/movies/b'']]])" "''/movies''"]
  by (simp add: get_def get_try_def)

section \<open>Properties of \<open>restore_from_backup\<close>\<close>

lemma lookup_logged [simp]: "lookup (w\<lparr>logged := l\<rparr>) p = lookup w p"
  by (simp add: lookup_def)

lemma lookup_put [simp]: "lookup (put p n w) q = (if q = p then Some n else lookup w q)"
  by (simp add: lookup_def put_def update_conv')

lemma lookup_unlink [simp]: "lookup (unlink p w) q = (if q = p then None else lookup w q)"
  by (simp add: lookup_def unlink_def delete_conv')

lemma isfile_logged [simp]: "os_path_isfile (w\<lparr>logged := l\<rparr>) p = os_path_isfile w p"
  by (simp add: os_path_isfile_def)

lemma isdir_logged [simp]: "os_path_isdir (w\<lparr>logged := l\<rparr>) p = os_path_isdir w p"
  by (simp add: os_path_isdir_def)

lemma join_dir: "os_path_join d ''restore'' = dir_prefix d @ ''restore''"
  "os_path_join d ''config'' = dir_prefix d @ ''config''"
  "os_path_join d ''db'' = dir_prefix d @ ''db''"
  "os_path_join d ''bazarr.restart'' = dir_prefix d @ ''bazarr.restart''"
  by (simp_all add: os_path_join_def dir_prefix_def)

lemma join_file: "os_path_join (x @ ''restore'') ''config.ini'' = x @ ''restore/config.ini''"
  "os_path_join (x @ ''restore'') ''bazarr.db'' = x @ ''restore/bazarr.db''"
  "os_path_join (x @ ''config'') ''config.ini'' = x @ ''config/config.ini''"
  "os_path_join (x @ ''db'') ''bazarr.db'' = x @ ''db/bazarr.db''"
  by (simp_all add: os_path_join_def)

lemmas restore_paths = staged_config_def staged_database_def live_config_def live_database_def
  restart_file_def join_dir join_file

lemma get_restore_path_isdir:
  "os_path_isdir w (os_path_join (config_dir ar) ''restore'') \<Longrightarrow>
   get_restore_path ar os w =
     (Returned (os_path_join (config_dir ar) ''restore''),
      w\<lparr>logged := logged w @ [(''DEBUG'', ''Restore directory path is: '' @ os_path_join (config_dir ar) ''restore'')]\<rparr>)"
  by (simp add: get_restore_path_def then_do_def logging_def Let_def)

lemma os_remove_eq:
  "os_remove os p w =
     (if os_path_isfile w p \<and> \<not> refused os (Remove p) then (Returned (), unlink p w) else (Raised OSError, w))"
  by (simp add: os_remove_def)

lemma isfile_unlink [simp]: "os_path_isfile (unlink p w) q = (q \<noteq> p \<and> os_path_isfile w q)"
  by (simp add: os_path_isfile_def)

lemma restore_cleanup_lookup:
  assumes "rc \<noteq> rd"
  shows "fst (restore_cleanup os rc dc rd dd w) = Returned ()"
    and "lookup (snd (restore_cleanup os rc dc rd dd w)) p =
      (if p = rc \<and> os_path_isfile w rc \<and> \<not> refused os (Remove rc) then None
       else if p = rd \<and> os_path_isfile w rd \<and> \<not> refused os (Remove rd) then None
       else lookup w p)"
  using assms
  by (auto simp: restore_cleanup_def then_do_def try_except_def logging_def os_remove_eq)

text \<open>
  C1, amended: in every state in which exactly one of the staged config file and the
  staged database file exists (in an existing restore directory), \<open>restore_from_backup\<close>
  returns without raising or leaving the process, and the only change to the file system
  is made by its final cleanup pass: the staged file that is present is removed, unless
  the operating system refuses that removal; every other path keeps its node.
\<close>

theorem restore_partial_cleanup:
  assumes one: "os_path_isfile w (staged_config ar) \<noteq> os_path_isfile w (staged_database ar)"
    and dir: "os_path_isdir w (os_path_join (config_dir ar) ''restore'')"
  shows "fst (restore_from_backup ar os w) = Returned ()
    \<and> (\<forall>p. lookup (snd (restore_from_backup ar os w)) p =
         (if (p = staged_config ar \<or> p = staged_database ar) \<and> os_path_isfile w p \<and> \<not> refused os (Remove p)
          then None else lookup w p))"
proof -
  let ?w2 = "w\<lparr>logged := logged w @ [(''DEBUG'', ''Restore directory path is: '' @ os_path_join (config_dir ar) ''restore''),
     (''DEBUG'', ''Restore directory path is: '' @ os_path_join (config_dir ar) ''restore''),
     (''DEBUG'', ''Cannot restore a partial backup. You must have both config and database.'')]\<rparr>"
  have ne: "staged_config ar \<noteq> staged_database ar"
    by (simp add: restore_paths)
  have run: "restore_from_backup ar os w =
     restore_cleanup os (staged_config ar) (live_config ar) (staged_database ar) (live_database ar) ?w2"
    using one dir
    by (auto simp: restore_from_backup_def get_restore_path_isdir then_do_def Let_def logging_def
        staged_config_def staged_database_def live_config_def live_database_def)
  show ?thesis
    unfolding run using restore_cleanup_lookup [OF ne, of os "live_config ar" "live_database ar" ?w2]
    by auto
qed

lemmas run_eval =
  then_do_def try_except_def try_except_else_def try_finally_def logging_def
  os_path_join_def os_path_basename_def lookup_def put_def unlink_def
  os_path_isfile_def os_path_isdir_def os_makedirs_def os_remove_def copy_target_def shutil_copy_def
  io_open_w_def
  get_restore_path_def get_backup_path_def Let_def

lemmas restore_eval =
  restore_from_backup_def restore_staged_def restore_cleanup_def copy_and_remove_def
  remove_side_files_def request_restart_def
  staged_config_def staged_database_def live_config_def live_database_def

text \<open>
  C1, as stated by the specification: with exactly one staged file present the staged
  paths are untouched. They are not: the \<open>elif\<close> branch only logs, control reaches the
  two removals after the \<open>if\<close> statement, and the staged config file is gone.
\<close>

theorem restore_partial_counterexample:
  "os_path_isfile world_partial (staged_config example_args)
   \<and> \<not> os_path_isfile world_partial (staged_database example_args)
   \<and> \<not> os_path_isfile (snd (restore_from_backup example_args example_os world_partial))
         (staged_config example_args)"
  by (simp add: run_eval restore_eval example_args_def example_os_def world_partial_def)

text \<open>The amended C1 at the installation with only the config file staged.\<close>

theorem restore_partial_cleanup_witness:
  "fst (restore_from_backup example_args example_os world_partial) = Returned ()
   \<and> lookup (snd (restore_from_backup example_args example_os world_partial)) (staged_config example_args) = None
   \<and> lookup (snd (restore_from_backup example_args example_os world_partial)) (live_config example_args)
       = Some (File (Bytes ''live config'') 10)"
proof -
  have one: "os_path_isfile world_partial (staged_config example_args)
      \<noteq> os_path_isfile world_partial (staged_database example_args)"
    by (simp add: run_eval restore_eval example_args_def world_partial_def)
  have dir: "os_path_isdir world_partial (os_path_join (config_dir example_args) ''restore'')"
    by (simp add: run_eval example_args_def world_partial_def)
  have cfg: "os_path_isfile world_partial (staged_config example_args)"
    by (simp add: run_eval restore_eval example_args_def world_partial_def)
  have live: "lookup world_partial (live_config example_args) = Some (File (Bytes ''live config'') 10)"
    by (simp add: run_eval restore_eval example_args_def world_partial_def)
  have ne: "live_config example_args \<noteq> staged_config example_args"
    "live_config example_args \<noteq> staged_database example_args"
    by (simp_all add: run_eval restore_eval example_args_def)
  have nr: "\<not> refused example_os (Remove (staged_config example_args))"
    by (simp add: example_os_def)
  from restore_partial_cleanup [OF one dir, of example_os] cfg live ne nr
  show ?thesis by simp
qed

lemma get_restore_path_frame:
  "get_restore_path ar os w = (out, w1) \<Longrightarrow>
     (out = Raised OSError \<or> (out = Returned (os_path_join (config_dir ar) ''restore'')
         \<and> os_path_isdir w1 (os_path_join (config_dir ar) ''restore'')))
     \<and> (\<forall>p. p \<noteq> os_path_join (config_dir ar) ''restore'' \<longrightarrow> lookup w1 p = lookup w p)"
  by (auto simp: get_restore_path_def then_do_def logging_def os_makedirs_def Let_def
      os_path_isdir_def split: if_splits)

text \<open>
  C5: whenever a run of \<open>restore_from_backup\<close> changes the live config path or the live
  database path, both the staged config file and the staged database file were present
  when it started; a partial pair is never applied to the live paths.
\<close>

theorem restore_requires_both:
  assumes "lookup (snd (restore_from_backup ar os w)) (live_config ar) \<noteq> lookup w (live_config ar)
     \<or> lookup (snd (restore_from_backup ar os w)) (live_database ar) \<noteq> lookup w (live_database ar)"
  shows "os_path_isfile w (staged_config ar) \<and> os_path_isfile w (staged_database ar)"
proof (rule ccontr)
  assume nb: "\<not> (os_path_isfile w (staged_config ar) \<and> os_path_isfile w (staged_database ar))"
  let ?rd = "os_path_join (config_dir ar) ''restore''"
  obtain o1 w1 where g1: "get_restore_path ar os w = (o1, w1)" by (cases "get_restore_path ar os w")
  obtain o2 w2 where g2: "get_restore_path ar os w1 = (o2, w2)" by (cases "get_restore_path ar os w1")
  note f1 = get_restore_path_frame [OF g1] and f2 = get_restore_path_frame [OF g2]
  have ne: "live_config ar \<noteq> ?rd" "live_database ar \<noteq> ?rd"
    "staged_config ar \<noteq> ?rd" "staged_database ar \<noteq> ?rd"
    "live_config ar \<noteq> staged_config ar" "live_config ar \<noteq> staged_database ar"
    "live_database ar \<noteq> staged_config ar" "live_database ar \<noteq> staged_database ar"
    "staged_config ar \<noteq> staged_database ar"
    by (simp_all add: restore_paths)
  have l2: "lookup w2 p = lookup w p" if "p \<noteq> ?rd" for p
    using f1 f2 that by simp
  have i2: "os_path_isfile w2 (staged_config ar) = os_path_isfile w (staged_config ar)"
    "os_path_isfile w2 (staged_database ar) = os_path_isfile w (staged_database ar)"
    using l2 ne by (simp_all add: os_path_isfile_def)
  have "lookup (snd (restore_from_backup ar os w)) p = lookup w p"
    if "p = live_config ar \<or> p = live_database ar" for p
  proof (cases "o1 = Raised OSError")
    case True
    have "p \<noteq> ?rd" using that ne by auto
    then show ?thesis using True g1 f1 by (simp add: restore_from_backup_def then_do_def)
  next
    case r1: False
    then have o1: "o1 = Returned ?rd" using f1 by blast
    show ?thesis
    proof (cases "o2 = Raised OSError")
      case True
      have "p \<noteq> ?rd" using that ne by auto
      then show ?thesis using True g1 g2 o1 l2
        by (simp add: restore_from_backup_def then_do_def Let_def)
    next
      case False
      then have o2: "o2 = Returned ?rd" using f2 by blast
      have p: "p \<noteq> ?rd" "p \<noteq> staged_config ar" "p \<noteq> staged_database ar"
        using that ne by auto
      show ?thesis
        using g1 g2 o1 o2 nb i2 l2 [OF p(1)] p
          restore_cleanup_lookup(2) [OF ne(9), of os "live_config ar" "live_database ar" _ p]
        by (auto simp: restore_from_backup_def then_do_def Let_def logging_def
            staged_config_def [symmetric] staged_database_def [symmetric]
            live_config_def [symmetric] live_database_def [symmetric])
    qed
  qed
  with assms show False by blast
qed

text \<open>C5 at an installation with both files staged, where the live config changes.\<close>

theorem restore_requires_both_witness:
  "lookup (snd (restore_from_backup example_args example_os world_staged)) (live_config example_args)
     = Some (File (Bytes ''staged config'') 100)
   \<and> lookup world_staged (live_config example_args) = Some (File (Bytes ''live config'') 10)
   \<and> os_path_isfile world_staged (staged_config example_args)
   \<and> os_path_isfile world_staged (staged_database example_args)"
proof -
  have a: "lookup (snd (restore_from_backup example_args example_os world_staged)) (live_config example_args)
     = Some (File (Bytes ''staged config'') 100)"
    by (simp add: run_eval restore_eval example_args_def example_os_def world_staged_def)
  have b: "lookup world_staged (live_config example_args) = Some (File (Bytes ''live config'') 10)"
    by (simp add: run_eval restore_eval example_args_def world_staged_def)
  from a b have "lookup (snd (restore_from_backup example_args example_os world_staged)) (live_config example_args)
     \<noteq> lookup world_staged (live_config example_args)" by simp
  then show ?thesis
    using restore_requires_both [of example_args example_os world_staged] a b by simp
qed

lemma isdir_put_file [simp]:
  "os_path_isdir (put p (File c t) w) q = (q \<noteq> p \<and> os_path_isdir w q)"
  by (simp add: os_path_isdir_def)

lemma isdir_unlink_file [simp]:
  "os_path_isfile w p \<Longrightarrow> os_path_isdir (unlink p w) q = os_path_isdir w q"
  by (auto simp: os_path_isdir_def os_path_isfile_def split: option.splits node.splits)

lemma shutil_copy_cases:
  obtains (fail) "shutil_copy os src dst w = (Raised OSError, w)"
  | (ok) c t where "lookup w src = Some (File c t)" "copy_target w src dst \<noteq> src"
      "\<not> os_path_isdir w (copy_target w src dst)"
      "shutil_copy os src dst w = (Returned (), put (copy_target w src dst) (File c (clock os)) w)"
proof (cases "lookup w src")
  case None
  then show ?thesis using fail by (simp add: shutil_copy_def)
next
  case (Some n)
  show ?thesis
  proof (cases n)
    case (File c t)
    show ?thesis
    proof (cases "copy_target w src dst = src \<or> os_path_isdir w (copy_target w src dst)
        \<or> refused os (Copy src dst)")
      case True
      with Some File have "shutil_copy os src dst w = (Raised OSError, w)"
        by (simp add: shutil_copy_def Let_def)
      then show ?thesis by (rule fail)
    next
      case False
      with Some File have "shutil_copy os src dst w =
          (Returned (), put (copy_target w src dst) (File c (clock os)) w)"
        by (simp add: shutil_copy_def Let_def)
      with Some File False show ?thesis using ok [of c t] by simp
    qed
  next
    case (Dir t)
    with Some show ?thesis using fail by (simp add: shutil_copy_def)
  qed
qed

lemma shutil_copy_isdir:
  "os_path_isdir (snd (shutil_copy os src dst w)) q = os_path_isdir w q"
  by (cases rule: shutil_copy_cases [of os src dst w]) auto

lemma os_remove_isdir:
  "os_path_isdir (snd (os_remove os p w)) q = os_path_isdir w q"
  by (simp add: os_remove_def)

lemma io_open_w_isdir:
  "os_path_isdir (snd (io_open_w os p w)) q = os_path_isdir w q"
  by (auto simp: io_open_w_def)

lemma shutil_copy_fst:
  "fst (shutil_copy os src dst w) = Returned () \<or> shutil_copy os src dst w = (Raised OSError, w)"
  by (cases rule: shutil_copy_cases [of os src dst w]) auto

lemma os_remove_fst:
  "fst (os_remove os p w) = Returned () \<or> os_remove os p w = (Raised OSError, w)"
  by (simp add: os_remove_def)

lemma copy_and_remove_isdir: "os_path_isdir (snd (copy_and_remove os src dst w)) q = os_path_isdir w q"
  unfolding copy_and_remove_def then_do_def
  using shutil_copy_isdir [of os src dst w q] os_remove_isdir [of os src "snd (shutil_copy os src dst w)" q]
  by (cases "shutil_copy os src dst w") (auto split: outcome.splits)

lemma copy_and_remove_out:
  "fst (copy_and_remove os src dst w) = Returned () \<or> fst (copy_and_remove os src dst w) = Raised OSError"
  unfolding copy_and_remove_def then_do_def
  using shutil_copy_fst [of os src dst w] os_remove_fst [of os src "snd (shutil_copy os src dst w)"]
  by (cases "shutil_copy os src dst w") (auto split: outcome.splits)

lemma basename_no_sep: "CHR ''/'' \<notin> set (os_path_basename p)"
  by (auto simp: os_path_basename_def dest: set_takeWhileD)

lemma shutil_copy_frame:
  "p \<noteq> dst \<Longrightarrow> p \<noteq> os_path_join dst (os_path_basename src)
   \<Longrightarrow> lookup (snd (shutil_copy os src dst w)) p = lookup w p"
  by (cases rule: shutil_copy_cases [of os src dst w]) (auto simp: copy_target_def)

lemma os_remove_frame: "p \<noteq> q \<Longrightarrow> lookup (snd (os_remove os q w)) p = lookup w p"
  by (simp add: os_remove_def)

lemma shutil_copy_src:
  "fst (shutil_copy os src dst w) = Returned () \<Longrightarrow>
   lookup (snd (shutil_copy os src dst w)) src = lookup w src"
  by (cases rule: shutil_copy_cases [of os src dst w]) auto

lemma then_do_remove:
  "then_do r (\<lambda>_. os_remove os q) =
     (case fst r of Returned x \<Rightarrow> os_remove os q (snd r) | Raised e \<Rightarrow> (Raised e, snd r)
      | Exited c \<Rightarrow> (Exited c, snd r))"
  by (cases r) (simp add: then_do_def split: outcome.splits)

lemma copy_and_remove_frame:
  assumes "p \<noteq> src" "p \<noteq> dst" "p \<noteq> os_path_join dst (os_path_basename src)"
  shows "lookup (snd (copy_and_remove os src dst w)) p = lookup w p"
proof (cases "fst (shutil_copy os src dst w)")
  case (Returned x)
  then show ?thesis
    using shutil_copy_frame [OF assms(2,3), of os w] os_remove_frame [OF assms(1)]
    by (simp add: copy_and_remove_def then_do_remove)
next
  case (Raised e)
  then show ?thesis using shutil_copy_frame [OF assms(2,3), of os w]
    by (simp add: copy_and_remove_def then_do_remove)
next
  case (Exited c)
  then show ?thesis using shutil_copy_frame [OF assms(2,3), of os w]
    by (simp add: copy_and_remove_def then_do_remove)
qed

lemma copy_and_remove_src:
  assumes "os_path_isfile w src" "\<not> refused os (Remove src)"
  shows "lookup (snd (copy_and_remove os src dst w)) src =
     (if fst (shutil_copy os src dst w) = Returned () then None else lookup w src)"
proof (cases "fst (shutil_copy os src dst w) = Returned ()")
  case True
  have "os_path_isfile (snd (shutil_copy os src dst w)) src"
    using shutil_copy_src [OF True] assms(1) by (simp add: os_path_isfile_def)
  then show ?thesis using True assms(2)
    by (simp add: copy_and_remove_def then_do_remove os_remove_def)
next
  case False
  then have "shutil_copy os src dst w = (Raised OSError, w)"
    using shutil_copy_fst [of os src dst w] by blast
  then show ?thesis using False by (simp add: copy_and_remove_def then_do_def)
qed

lemma shutil_copy_fst_cong:
  assumes "lookup w' src = lookup w src" "\<And>q. os_path_isdir w' q = os_path_isdir w q"
  shows "fst (shutil_copy os src dst w') = Returned () \<longleftrightarrow> fst (shutil_copy os src dst w) = Returned ()"
  using assms by (simp add: shutil_copy_def copy_target_def Let_def split: option.splits node.splits)

lemma try_except_logging:
  assumes "fst body = Returned () \<or> fst body = Raised OSError"
  shows "fst (try_except body is_OSError (\<lambda>e. logging l m)) = Returned ()"
    and "lookup (snd (try_except body is_OSError (\<lambda>e. logging l m))) p = lookup (snd body) p"
  using assms by (cases body; auto simp: try_except_def logging_def)+

lemma remove_side_files_effect:
  "fst (remove_side_files os dd w) = Returned ()"
  "p \<noteq> dd @ ''-shm'' \<Longrightarrow> p \<noteq> dd @ ''-wal'' \<Longrightarrow> lookup (snd (remove_side_files os dd w)) p = lookup w p"
  by (simp_all add: remove_side_files_def try_except_def then_do_def logging_def os_remove_def)

lemma request_restart_effect:
  "fst (request_restart ar os w) = Returned () \<or> fst (request_restart ar os w) = Exited 0"
  "p \<noteq> restart_file ar \<Longrightarrow> lookup (snd (request_restart ar os w)) p = lookup w p"
  by (simp_all add: request_restart_def try_except_else_def then_do_def logging_def io_open_w_def
      restart_file_def)

lemma restore_database_step:
  assumes "p \<noteq> src" "p \<noteq> dst" "p \<noteq> os_path_join dst (os_path_basename src)"
    "p \<noteq> dst @ ''-shm''" "p \<noteq> dst @ ''-wal''"
  shows "lookup (snd (try_except_else (copy_and_remove os src dst w) is_OSError (\<lambda>e. logging l m)
      (remove_side_files os dst))) p = lookup w p"
proof -
  obtain out w1 where c: "copy_and_remove os src dst w = (out, w1)"
    by (cases "copy_and_remove os src dst w")
  have f: "lookup w1 p = lookup w p"
    using copy_and_remove_frame [OF assms(1-3), of os w] c by simp
  have o: "out = Returned () \<or> out = Raised OSError"
    using copy_and_remove_out [of os src dst w] c by simp
  then show ?thesis
    using c f remove_side_files_effect(2) [OF assms(4,5), of os w1]
    by (auto simp: try_except_else_def logging_def)
qed

lemma restore_database_step_src:
  assumes "os_path_isfile w src" "\<not> refused os (Remove src)"
    "src \<noteq> dst @ ''-shm''" "src \<noteq> dst @ ''-wal''"
  shows "fst (try_except_else (copy_and_remove os src dst w) is_OSError (\<lambda>e. logging l m)
      (remove_side_files os dst)) = Returned ()"
   and "lookup (snd (try_except_else (copy_and_remove os src dst w) is_OSError (\<lambda>e. logging l m)
      (remove_side_files os dst))) src
     = (if fst (shutil_copy os src dst w) = Returned () then None else lookup w src)"
proof -
  obtain out w1 where c: "copy_and_remove os src dst w = (out, w1)"
    by (cases "copy_and_remove os src dst w")
  have f: "lookup w1 src = (if fst (shutil_copy os src dst w) = Returned () then None else lookup w src)"
    using copy_and_remove_src [OF assms(1,2), of dst] c by simp
  have o: "out = Returned () \<or> out = Raised OSError"
    using copy_and_remove_out [of os src dst w] c by simp
  show "fst (try_except_else (copy_and_remove os src dst w) is_OSError (\<lambda>e. logging l m)
      (remove_side_files os dst)) = Returned ()"
    using o c remove_side_files_effect(1) [of os dst w1]
    by (auto simp: try_except_else_def logging_def)
  show "lookup (snd (try_except_else (copy_and_remove os src dst w) is_OSError (\<lambda>e. logging l m)
      (remove_side_files os dst))) src
     = (if fst (shutil_copy os src dst w) = Returned () then None else lookup w src)"
    using o c f remove_side_files_effect(2) [OF assms(3,4), of os w1]
    by (auto simp: try_except_else_def logging_def)
qed

lemma join_nosep:
  "CHR ''/'' \<notin> set b \<Longrightarrow> a \<noteq> [] \<Longrightarrow> last a \<noteq> CHR ''/'' \<Longrightarrow> os_path_join a b = a @ ''/'' @ b"
  by (cases b) (auto simp: os_path_join_def)

lemma live_join_basename:
  "os_path_join (live_config ar) (os_path_basename p) = live_config ar @ ''/'' @ os_path_basename p"
  "os_path_join (live_database ar) (os_path_basename p) = live_database ar @ ''/'' @ os_path_basename p"
  by (simp_all add: join_nosep basename_no_sep restore_paths)

lemma staged_distinct:
  "staged_config ar \<noteq> staged_database ar"
  "staged_database ar \<noteq> staged_config ar"
  "staged_database ar \<noteq> live_config ar"
  "staged_database ar \<noteq> live_config ar @ CHR ''/'' # b"
  "staged_config ar \<noteq> live_database ar"
  "staged_config ar \<noteq> live_database ar @ CHR ''/'' # b"
  "staged_config ar \<noteq> live_database ar @ ''-shm''"
  "staged_config ar \<noteq> live_database ar @ ''-wal''"
  "staged_database ar \<noteq> live_database ar @ ''-shm''"
  "staged_database ar \<noteq> live_database ar @ ''-wal''"
  "staged_config ar \<noteq> restart_file ar"
  "staged_database ar \<noteq> restart_file ar"
  by (simp_all add: restore_paths)

lemma restore_staged_effect:
  assumes both: "os_path_isfile w (staged_config ar)" "os_path_isfile w (staged_database ar)"
    and nr: "\<not> refused os (Remove (staged_config ar))" "\<not> refused os (Remove (staged_database ar))"
  defines "R \<equiv> restore_staged ar os (staged_config ar) (live_config ar) (staged_database ar)
      (live_database ar) w"
  shows "fst R = Returned () \<or> fst R = Exited 0"
    and "lookup (snd R) (staged_config ar) =
      (if fst (shutil_copy os (staged_config ar) (live_config ar) w) = Returned () then None
       else lookup w (staged_config ar))"
    and "lookup (snd R) (staged_database ar) =
      (if fst (shutil_copy os (staged_database ar) (live_database ar) w) = Returned () then None
       else lookup w (staged_database ar))"
proof -
  let ?rc = "staged_config ar" and ?rd = "staged_database ar"
  let ?dc = "live_config ar" and ?dd = "live_database ar"
  let ?m1 = "''Unable to restore or delete config.ini to '' @ ?dc"
  let ?m2 = "''Unable to restore or delete db to '' @ ?dd"
  let ?S1 = "copy_and_remove os ?rc ?dc w"
  let ?A = "try_except ?S1 is_OSError (\<lambda>e. logging ''ERROR'' ?m1)"
  let ?wA = "snd ?A"
  let ?B = "try_except_else (copy_and_remove os ?rd ?dd ?wA) is_OSError
      (\<lambda>e. logging ''ERROR'' ?m2) (remove_side_files os ?dd)"
  let ?wB = "snd ?B"
  have A: "?A = (Returned (), ?wA)"
    using try_except_logging(1) [OF copy_and_remove_out [of os ?rc ?dc w], of "''ERROR''" ?m1]
    by (simp add: prod_eq_iff)
  have lA: "lookup ?wA p = lookup (snd ?S1) p" for p
    using try_except_logging(2) [OF copy_and_remove_out [of os ?rc ?dc w]] by simp
  have dA: "os_path_isdir ?wA q = os_path_isdir w q" for q
    using lA [of q] copy_and_remove_isdir [of os ?rc ?dc w q] by (simp add: os_path_isdir_def)
  have A_rc: "lookup ?wA ?rc =
      (if fst (shutil_copy os ?rc ?dc w) = Returned () then None else lookup w ?rc)"
    using lA copy_and_remove_src [OF both(1) nr(1)] by simp
  have A_rd: "lookup ?wA ?rd = lookup w ?rd"
    using lA copy_and_remove_frame [of ?rd ?rc ?dc os w]
    by (simp add: live_join_basename staged_distinct)
  have fA: "os_path_isfile ?wA ?rd"
    using A_rd both(2) by (simp add: os_path_isfile_def)
  have B: "?B = (Returned (), ?wB)"
    using restore_database_step_src(1) [OF fA nr(2), of ?dd]
    by (simp add: prod_eq_iff staged_distinct)
  have c2: "fst (shutil_copy os ?rd ?dd ?wA) = Returned ()
      \<longleftrightarrow> fst (shutil_copy os ?rd ?dd w) = Returned ()"
    by (rule shutil_copy_fst_cong [OF A_rd dA])
  have B_rd: "lookup ?wB ?rd =
      (if fst (shutil_copy os ?rd ?dd w) = Returned () then None else lookup w ?rd)"
    using restore_database_step_src(2) [OF fA nr(2), of ?dd] c2 A_rd
    by (simp add: staged_distinct)
  have B_rc: "lookup ?wB ?rc = lookup ?wA ?rc"
    by (rule restore_database_step) (simp_all add: live_join_basename staged_distinct)
  have R: "R = request_restart ar os ?wB"
    unfolding R_def restore_staged_def
    by (subst A, simp only: then_do_def prod.case outcome.case, subst B) simp
  show "fst R = Returned () \<or> fst R = Exited 0"
    unfolding R by (rule request_restart_effect(1))
  show "lookup (snd R) ?rc =
      (if fst (shutil_copy os ?rc ?dc w) = Returned () then None else lookup w ?rc)"
    unfolding R using request_restart_effect(2) [of ?rc ar os ?wB] B_rc A_rc
    by (simp add: staged_distinct)
  show "lookup (snd R) ?rd =
      (if fst (shutil_copy os ?rd ?dd w) = Returned () then None else lookup w ?rd)"
    unfolding R using request_restart_effect(2) [of ?rd ar os ?wB] B_rd
    by (simp add: staged_distinct)
qed

text \<open>
  C6, amended: after a run of \<open>restore_from_backup\<close> that entered the branch with both
  files staged, both staged files are absent, provided the operating system refuses
  neither removal and either the success step did not run (the process was not left:
  the final cleanup pass removes what the copy steps kept) or both copies succeeded (each
  staged file is removed right after its copy, and the process exits before the cleanup
  pass).
\<close>

theorem restore_staged_removed:
  assumes both: "os_path_isfile w (staged_config ar)" "os_path_isfile w (staged_database ar)"
    and dir: "os_path_isdir w (os_path_join (config_dir ar) ''restore'')"
    and nr: "\<not> refused os (Remove (staged_config ar))" "\<not> refused os (Remove (staged_database ar))"
    and ok: "fst (restore_from_backup ar os w) \<noteq> Exited 0
      \<or> (fst (shutil_copy os (staged_config ar) (live_config ar) w) = Returned ()
         \<and> fst (shutil_copy os (staged_database ar) (live_database ar) w) = Returned ())"
  shows "lookup (snd (restore_from_backup ar os w)) (staged_config ar) = None
    \<and> lookup (snd (restore_from_backup ar os w)) (staged_database ar) = None"
proof -
  let ?rc = "staged_config ar" and ?rd = "staged_database ar"
  let ?dc = "live_config ar" and ?dd = "live_database ar"
  let ?w2 = "w\<lparr>logged := logged w @
      [(''DEBUG'', ''Restore directory path is: '' @ os_path_join (config_dir ar) ''restore''),
       (''DEBUG'', ''Restore directory path is: '' @ os_path_join (config_dir ar) ''restore'')]\<rparr>"
  let ?R = "restore_staged ar os ?rc ?dc ?rd ?dd ?w2"
  have both2: "os_path_isfile ?w2 ?rc" "os_path_isfile ?w2 ?rd"
    using both by simp_all
  note eff = restore_staged_effect [OF both2 nr]
  have c1: "fst (shutil_copy os ?rc ?dc ?w2) = Returned ()
      \<longleftrightarrow> fst (shutil_copy os ?rc ?dc w) = Returned ()"
    by (rule shutil_copy_fst_cong) simp_all
  have c2: "fst (shutil_copy os ?rd ?dd ?w2) = Returned ()
      \<longleftrightarrow> fst (shutil_copy os ?rd ?dd w) = Returned ()"
    by (rule shutil_copy_fst_cong) simp_all
  have run: "restore_from_backup ar os w =
      (case ?R of
         (Returned x, w3) \<Rightarrow> restore_cleanup os ?rc ?dc ?rd ?dd w3
       | (Raised e, w3) \<Rightarrow> (Raised e, w3)
       | (Exited c, w3) \<Rightarrow> (Exited c, w3))"
    using both dir
    by (simp add: restore_from_backup_def get_restore_path_isdir then_do_def Let_def
        staged_config_def [symmetric] staged_database_def [symmetric]
        live_config_def [symmetric] live_database_def [symmetric]
        split: prod.splits outcome.splits)
  obtain out w3 where R: "?R = (out, w3)" by (cases ?R)
  from eff(1) R have "out = Returned () \<or> out = Exited 0" by simp
  then show ?thesis
  proof
    assume out: "out = Returned ()"
    have ne: "?rc \<noteq> ?rd" by (simp add: staged_distinct)
    have l3: "lookup w3 ?rc = None \<or> os_path_isfile w3 ?rc"
      "lookup w3 ?rd = None \<or> os_path_isfile w3 ?rd"
      using eff(2,3) R both by (auto simp: os_path_isfile_def)
    show ?thesis
      using run R out l3 nr ne
        restore_cleanup_lookup(2) [OF ne, of os ?dc ?dd w3 ?rc]
        restore_cleanup_lookup(2) [OF ne, of os ?dc ?dd w3 ?rd]
      by auto
  next
    assume out: "out = Exited 0"
    then have "fst (restore_from_backup ar os w) = Exited 0"
      using run R by simp
    with ok have "fst (shutil_copy os ?rc ?dc w) = Returned ()"
      "fst (shutil_copy os ?rd ?dd w) = Returned ()" by auto
    then show ?thesis
      using run R out eff(2,3) c1 c2 by simp
  qed
qed

text \<open>
  C6, as stated by the specification: whether or not the success step ran, both staged
  files are removed by the final cleanup pass. When the copy of the config file is
  refused and the sentinel is written, \<open>os._exit(0)\<close> ends the process before the
  cleanup pass, and the staged config file is still there.
\<close>

theorem restore_staged_counterexample:
  "os_path_isfile world_staged (staged_config example_args)
   \<and> os_path_isfile world_staged (staged_database example_args)
   \<and> fst (restore_from_backup example_args example_os_copy_refused world_staged) = Exited 0
   \<and> os_path_isfile (snd (restore_from_backup example_args example_os_copy_refused world_staged))
        (staged_config example_args)"
  by (simp add: run_eval restore_eval example_args_def example_os_def example_os_copy_refused_def
      world_staged_def)

text \<open>
  The amended C6 at an installation where the config copy and the sentinel are both
  refused: the function returns and the cleanup pass has removed both staged files.
\<close>

theorem restore_staged_removed_witness:
  "fst (restore_from_backup example_args example_os_no_restart world_staged) = Returned ()
   \<and> lookup (snd (restore_from_backup example_args example_os_no_restart world_staged))
        (staged_config example_args) = None
   \<and> lookup (snd (restore_from_backup example_args example_os_no_restart world_staged))
        (staged_database example_args) = None"
proof -
  have both: "os_path_isfile world_staged (staged_config example_args)"
    "os_path_isfile world_staged (staged_database example_args)"
    by (simp_all add: run_eval restore_eval example_args_def world_staged_def)
  have dir: "os_path_isdir world_staged (os_path_join (config_dir example_args) ''restore'')"
    by (simp add: run_eval example_args_def world_staged_def)
  have nr: "\<not> refused example_os_no_restart (Remove (staged_config example_args))"
    "\<not> refused example_os_no_restart (Remove (staged_database example_args))"
    by (simp_all add: example_os_no_restart_def example_os_def)
  have ret: "fst (restore_from_backup example_args example_os_no_restart world_staged) = Returned ()"
    by (simp add: run_eval restore_eval example_args_def example_os_def example_os_no_restart_def
        world_staged_def)
  then have ok: "fst (restore_from_backup example_args example_os_no_restart world_staged) \<noteq> Exited 0
      \<or> (fst (shutil_copy example_os_no_restart (staged_config example_args)
              (live_config example_args) world_staged) = Returned ()
         \<and> fst (shutil_copy example_os_no_restart (staged_database example_args)
              (live_database example_args) world_staged) = Returned ())"
    by simp
  from restore_staged_removed [OF both dir nr ok] ret show ?thesis by simp
qed

section \<open>Properties of \<open>prepare_restore\<close>, \<open>backup_to_zip\<close> and \<open>backup_rotation\<close>\<close>

lemmas backup_eval =
  prepare_restore_def copy_and_extract_def extract_archive_def zipfile_open_r_def
  zipfile_extractall_def webserver_restart_def
  backup_to_zip_def write_archive_def snapshot_database_def snapshot_try_def sqlite3_connect_def
  sqlite3_backup_def zipfile_open_w_def zipfile_write_def backup_filename_def
  get_backup_files_def sorted_backup_files_def glob_backup_files_def fnmatch_backup_def
  os_path_getmtime_def os_path_getsize_def zip_date_check_def zip_epoch_def zip_horizon_def
  backup_rotation_def fromtimestamp_def utcnow_def timedelta_days_def str_int_def

text \<open>
  C2: no restart when the copied archive is corrupt. The code does not keep to it:
  \<open>success = True\<close> follows the inner \<open>try\<close> statement, so after \<open>BadZipFile\<close> has
  been caught and logged the flag is set all the same. Evaluated on an installation
  whose selected archive is not a zip file: \<open>prepare_restore\<close> returns and
  \<open>webserver.restart()\<close> has been called once.
\<close>

theorem prepare_restore_restarts_on_bad_archive:
  "zipfile_open_r world_live example_archive = Inl BadZipFile
   \<and> fst (prepare_restore example_settings example_args example_os
        ''bazarr_backup_v1.0_2021.12.31_00.00.00.zip'' world_live) = Returned ()
   \<and> restarts (snd (prepare_restore example_settings example_args example_os
        ''bazarr_backup_v1.0_2021.12.31_00.00.00.zip'' world_live)) = restarts world_live + 1"
  by (simp add: run_eval backup_eval example_settings_def example_args_def example_os_def
      example_archive_def world_live_def)

text \<open>
  C3: \<open>backup_to_zip\<close> never raises, also when the database snapshot fails. The code
  does not keep to it: the handler of the snapshot sets \<open>database_backup_file\<close> to
  \<open>None\<close>, and the final \<open>os.remove(None)\<close> raises \<open>TypeError\<close>, which
  \<open>except OSError\<close> does not catch. Evaluated on an installation whose database
  cannot be backed up.
\<close>

theorem backup_to_zip_raises_without_snapshot:
  "fst (snapshot_database example_settings example_os_snapshot_fails ''/cfg/db/bazarr.db'' world_live)
     = Returned None
   \<and> fst (backup_to_zip example_settings example_args example_os_snapshot_fails world_live)
     = Raised TypeError"
  by (simp add: run_eval backup_eval example_settings_def example_args_def example_os_def
      example_os_snapshot_fails_def world_live_def)

text \<open>
  C7: archives newer than the retention window are kept and strictly older ones are
  deleted. The code does not keep to it where local time is not UTC: it compares
  \<open>datetime.fromtimestamp\<close> (local time) with \<open>datetime.utcnow()\<close> (UTC). With a
  retention of one day, five hours west of UTC an archive modified twenty hours ago is
  deleted; two hours east of UTC an archive modified twenty-five hours ago is kept.
\<close>

theorem backup_rotation_mixes_clocks:
  "os_path_getmtime world_live example_archive = Inr 100800000000
   \<and> utcnow example_os_west - timedelta_days 1 < 100800000000
   \<and> lookup (snd (backup_rotation example_settings example_os_west world_live)) example_archive = None
   \<and> 100800000000 < utcnow example_os_east - timedelta_days 1
   \<and> lookup (snd (backup_rotation example_settings example_os_east world_live)) example_archive
       = Some (File (Bytes ''truncated'') 100800000000)"
  by (simp add: run_eval backup_eval example_settings_def example_args_def example_os_def
      example_os_west_def example_os_east_def example_archive_def world_live_def str_nat.simps digit_char_def)

section \<open>Properties of \<open>sizeof_fmt\<close>\<close>

lemma bit_length_bounds:
  "0 < n \<Longrightarrow> 2 ^ (bit_length n - 1) \<le> n \<and> n < 2 ^ bit_length n"
proof (induction n rule: bit_length.induct)
  case (1 n)
  show ?case
  proof (cases "n div 2 = 0")
    case True
    with "1.prems" have "n = 1" by linarith
    then show ?thesis by (simp add: bit_length.simps)
  next
    case False
    then have pos: "0 < n div 2" by simp
    from "1.prems" have n0: "n \<noteq> 0" by simp
    from "1.IH" [OF n0 pos] have ih: "2 ^ (bit_length (n div 2) - 1) \<le> n div 2"
      "n div 2 < 2 ^ bit_length (n div 2)" by simp_all
    have b: "bit_length n = Suc (bit_length (n div 2))"
      using n0 by (subst bit_length.simps) simp
    have bp: "0 < bit_length (n div 2)"
      using pos by (subst bit_length.simps) simp
    then obtain j where j: "bit_length (n div 2) = Suc j" by (cases "bit_length (n div 2)") auto
    from ih j have "2 * 2 ^ j \<le> 2 * (n div 2)" "2 * (n div 2) + 1 < 2 * 2 ^ Suc j" by simp_all
    then have "2 ^ Suc j \<le> n" "n < 2 ^ Suc (Suc j)" by simp_all
    then show ?thesis using b j by simp
  qed
qed

lemma bit_length_eq:
  assumes "2 ^ k \<le> n" "n < 2 ^ Suc k"
  shows "bit_length n = Suc k"
proof -
  have pos: "0 < n" using assms(1) by (metis less_le_trans zero_less_numeral zero_less_power)
  note b = bit_length_bounds [OF pos]
  have "(2::nat) ^ k < 2 ^ bit_length n" using assms(1) b by linarith
  then have a: "k < bit_length n"
    using power_strict_increasing_iff [of "2::nat" k "bit_length n"] by simp
  have "(2::nat) ^ (bit_length n - 1) < 2 ^ Suc k" using assms(2) b by linarith
  then have "bit_length n - 1 < Suc k"
    using power_strict_increasing_iff [of "2::nat" "bit_length n - 1" "Suc k"] by simp
  with a show ?thesis by linarith
qed

lemma floor_log2_eq:
  assumes "2 ^ k \<le> a" "a < 2 ^ Suc k"
  shows "floor_log2 a = int k"
proof -
  have a1: "1 \<le> a"
    using assms(1) one_le_power [of "2::rat" k] by linarith
  have "of_int (2 ^ k) \<le> a" using assms(1) by simp
  then have lo: "2 ^ k \<le> \<lfloor>a\<rfloor>" by (simp only: le_floor_iff)
  have "a < of_int (2 ^ Suc k)" using assms(2) by simp
  then have hi: "\<lfloor>a\<rfloor> < 2 ^ Suc k" by (simp only: floor_less_iff)
  have nn: "0 \<le> \<lfloor>a\<rfloor>" using a1 by simp
  have "2 ^ k \<le> nat \<lfloor>a\<rfloor>" "nat \<lfloor>a\<rfloor> < 2 ^ Suc k"
    using lo hi nn by (simp_all add: le_nat_iff nat_less_iff)
  then have "bit_length (nat \<lfloor>a\<rfloor>) = Suc k" by (rule bit_length_eq)
  then show ?thesis using a1 by (simp add: floor_log2_def)
qed

lemma round_half_even_of_int: "round_half_even (of_int m) = m"
  by (simp add: round_half_even_def)

lemma round_half_even_down:
  "of_int f \<le> q \<Longrightarrow> q < of_int f + 1 / 2 \<Longrightarrow> round_half_even q = f"
proof -
  assume a: "of_int f \<le> q" "q < of_int f + 1 / 2"
  then have "\<lfloor>q\<rfloor> = f" by (intro floor_unique) simp_all
  with a show ?thesis by (simp add: round_half_even_def)
qed

lemma round_half_even_up:
  "of_int f + 1 / 2 < q \<Longrightarrow> q < of_int f + 1 \<Longrightarrow> round_half_even q = f + 1"
proof -
  assume a: "of_int f + 1 / 2 < q" "q < of_int f + 1"
  then have "\<lfloor>q\<rfloor> = f" by (intro floor_unique) simp_all
  with a show ?thesis by (simp add: round_half_even_def)
qed

lemma round_half_even_tie:
  "q = of_int f + 1 / 2 \<Longrightarrow> round_half_even q = (if even f then f else f + 1)"
proof -
  assume a: "q = of_int f + 1 / 2"
  then have "\<lfloor>q\<rfloor> = f" by (intro floor_unique) simp_all
  with a show ?thesis by (simp add: round_half_even_def)
qed

lemma round_to_double_eval:
  assumes "2 ^ k \<le> \<bar>q\<bar>" "\<bar>q\<bar> < 2 ^ Suc k"
    and "round_half_even (\<bar>q\<bar> / pow2 (int k - 52)) = m"
  shows "round_to_double q = (if q < 0 then - 1 else 1) * of_int m * pow2 (int k - 52)"
proof -
  have "(0::rat) < 2 ^ k" by simp
  with assms(1) have "0 < \<bar>q\<bar>" by linarith
  then have "q \<noteq> 0" by simp
  moreover have "floor_log2 \<bar>q\<bar> = int k" using assms(1,2) by (rule floor_log2_eq)
  ultimately show ?thesis using assms(3) by (simp add: round_to_double_def Let_def)
qed

lemma round_to_double_exact:
  assumes "2 ^ k \<le> \<bar>q\<bar>" "\<bar>q\<bar> < 2 ^ Suc k"
    and "\<bar>q\<bar> / pow2 (int k - 52) = of_int m"
  shows "round_to_double q = q"
proof -
  have p: "pow2 (int k - 52) \<noteq> 0" by (simp add: pow2_def)
  have "round_half_even (\<bar>q\<bar> / pow2 (int k - 52)) = m"
    using assms(3) by (simp add: round_half_even_of_int)
  from round_to_double_eval [OF assms(1,2) this]
  have "round_to_double q = (if q < 0 then - 1 else 1) * (\<bar>q\<bar> / pow2 (int k - 52)) * pow2 (int k - 52)"
    using assms(3) by simp
  also have "\<dots> = (if q < 0 then - 1 else 1) * \<bar>q\<bar>" using p by simp
  also have "\<dots> = q" by simp
  finally show ?thesis .
qed

lemma round_half_even_numeral [simp]: "round_half_even (numeral n) = numeral n"
  using round_half_even_of_int [of "numeral n"] by simp

lemma round_half_even_zero [simp]: "round_half_even 0 = 0"
  using round_half_even_of_int [of 0] by simp

lemma to_float_PyFloat [simp]: "to_float (PyFloat x) = Inr x"
  by (simp add: to_float_def)

lemma to_float_PyInt:
  "round_to_double (of_int n) = of_int n \<Longrightarrow> \<bar>of_int n :: rat\<bar> < 2 ^ 1024
   \<Longrightarrow> to_float (PyInt n) = Inr (of_int n)"
  by (simp add: to_float_def Let_def)

lemma double_999: "round_to_double 999 = 999"
  by (rule round_to_double_exact [where k = 9 and m = "999 * 2 ^ 43"]) (simp_all add: pow2_def)

lemma double_1500: "round_to_double 1500 = 1500"
  by (rule round_to_double_exact [where k = 10 and m = "1500 * 2 ^ 42"]) (simp_all add: pow2_def)

lemma double_3_2: "round_to_double (3 / 2) = 3 / 2"
  by (rule round_to_double_exact [where k = 0 and m = "3 * 2 ^ 51"]) (simp_all add: pow2_def)

lemma double_1e18: "round_to_double 1000000000000000000 = 1000000000000000000"
  by (rule round_to_double_exact [where k = 59 and m = 7812500000000000]) (simp_all add: pow2_def)

lemma double_1e15: "round_to_double 1000000000000000 = 1000000000000000"
  by (rule round_to_double_exact [where k = 49 and m = 8000000000000000]) (simp_all add: pow2_def)

lemma double_1e12: "round_to_double 1000000000000 = 1000000000000"
  by (rule round_to_double_exact [where k = 39 and m = "1000000000000 * 2 ^ 13"]) (simp_all add: pow2_def)

lemma double_1e9: "round_to_double 1000000000 = 1000000000"
  by (rule round_to_double_exact [where k = 29 and m = "1000000000 * 2 ^ 23"]) (simp_all add: pow2_def)

lemma double_1e6: "round_to_double 1000000 = 1000000"
  by (rule round_to_double_exact [where k = 19 and m = "1000000 * 2 ^ 33"]) (simp_all add: pow2_def)

lemma double_1e3: "round_to_double 1000 = 1000"
  by (rule round_to_double_exact [where k = 9 and m = "1000 * 2 ^ 43"]) (simp_all add: pow2_def)

lemma double_1: "round_to_double 1 = 1"
  by (rule round_to_double_exact [where k = 0 and m = "2 ^ 52"]) (simp_all add: pow2_def)

lemmas fmt_eval = fmt_3_1f_def fmt_1f_def str_nat.simps digit_char_def

lemma sizeof_fmt_999: "sizeof_fmt (PyInt 999) = Inr ''999.0 B''"
proof -
  have f: "to_float (PyInt 999) = Inr 999"
    using to_float_PyInt [of 999] double_999 by simp
  show ?thesis
    by (simp add: sizeof_fmt_def sizeof_fmt_suffix_def f fmt_eval)
qed

lemma sizeof_fmt_1500: "sizeof_fmt (PyInt 1500) = Inr ''1.5 KB''"
proof -
  have f: "to_float (PyInt 1500) = Inr 1500"
    using to_float_PyInt [of 1500] double_1500 by simp
  show ?thesis
    by (simp add: sizeof_fmt_def sizeof_fmt_suffix_def f double_3_2 fmt_eval)
qed

lemma sizeof_fmt_1e18: "sizeof_fmt (PyInt (10 ^ 18)) = Inr ''1.0 EB''"
proof -
  have f: "to_float (PyInt 1000000000000000000) = Inr 1000000000000000000"
    using to_float_PyInt [of 1000000000000000000] double_1e18 by simp
  show ?thesis
    by (simp add: sizeof_fmt_def sizeof_fmt_suffix_def f double_1e15 double_1e12 double_1e9
        double_1e6 double_1e3 double_1 fmt_eval)
qed

lemma double_1050: "round_to_double 1050 = 1050"
  by (rule round_to_double_exact [where k = 10 and m = "1050 * 2 ^ 42"]) (simp_all add: pow2_def)

lemma double_21_20: "round_to_double (1050 / 1000) = 4728779608739021 / 2 ^ 52"
proof -
  have "round_half_even (\<bar>1050 / 1000 :: rat\<bar> / pow2 (int 0 - 52)) = 4728779608739020 + 1"
    by (rule round_half_even_up) (simp_all add: pow2_def)
  from round_to_double_eval [where k = 0 and q = "1050 / 1000", OF _ _ this]
  show ?thesis by (simp add: pow2_def)
qed

lemma round_half_even_21_2: "round_half_even (4728779608739021 / 2 ^ 52 * 10) = 10 + 1"
  by (rule round_half_even_up) simp_all

lemma sizeof_fmt_1050: "sizeof_fmt (PyInt 1050) = Inr ''1.1 KB''"
proof -
  have f: "to_float (PyInt 1050) = Inr 1050"
    using to_float_PyInt [of 1050] double_1050 by simp
  have d: "round_to_double (21 / 20) = 4728779608739021 / 2 ^ 52"
    using double_21_20 by simp
  have nn: "\<not> round_to_double (21 / 20) < 0" "\<bar>round_to_double (21 / 20)\<bar> < 1000"
    unfolding d by simp_all
  have "round_half_even (\<bar>round_to_double (21 / 20)\<bar> * 10) = 10 + 1"
    unfolding d using round_half_even_21_2 by simp
  hence r: "round_half_even (\<bar>round_to_double (21 / 20)\<bar> * 10) = 11"
    by simp
  have fx: "fmt_3_1f (round_to_double (21 / 20)) = ''1.1''"
    by (simp add: fmt_eval r nn)
  show ?thesis
    by (simp add: sizeof_fmt_def sizeof_fmt_suffix_def f nn fx)
qed

lemma double_1e18_minus_1: "round_to_double 999999999999999999 = 1000000000000000000"
proof -
  have "round_half_even (\<bar>999999999999999999 :: rat\<bar> / pow2 (int 59 - 52)) = 7812499999999999 + 1"
    by (rule round_half_even_up) (simp_all add: pow2_def)
  from round_to_double_eval [where k = 59 and q = 999999999999999999, OF _ _ this]
  show ?thesis by (simp add: pow2_def)
qed

lemma sizeof_fmt_1e18_minus_1: "sizeof_fmt (PyInt (10 ^ 18 - 1)) = Inr ''1.0 EB''"
proof -
  have f: "to_float (PyInt 999999999999999999) = Inr 1000000000000000000"
    using double_1e18_minus_1 by (simp add: to_float_def Let_def)
  show ?thesis
    by (simp add: sizeof_fmt_def sizeof_fmt_suffix_def f double_1e15 double_1e12 double_1e9
        double_1e6 double_1e3 double_1 fmt_eval)
qed

lemma sizeof_fmt_loop_unit:
  "sizeof_fmt_loop units num suffix = Inr s
   \<Longrightarrow> \<exists>d u. u \<in> set (units @ [''Y'']) \<and> s = d @ '' '' @ u @ suffix"
proof (induction units arbitrary: num)
  case Nil
  then obtain x where "s = fmt_1f x @ '' Y'' @ suffix"
    by (auto split: sum.splits)
  hence "s = fmt_1f x @ '' '' @ ''Y'' @ suffix" by simp
  thus ?case by auto
next
  case (Cons unit units)
  show ?case
  proof (cases "\<bar>num_value num\<bar> < 1000")
    case True
    with Cons.prems obtain x where "s = fmt_3_1f x @ '' '' @ unit @ suffix"
      by (auto split: sum.splits)
    thus ?thesis by auto
  next
    case False
    with Cons.prems obtain x where
      "sizeof_fmt_loop units (PyFloat (round_to_double (x / 1000))) suffix = Inr s"
      by (auto split: sum.splits)
    from Cons.IH [OF this] show ?thesis by auto
  qed
qed

text \<open>
  C8, as stated by the specification: 1500 is rendered as \<open>1.5 K\<close>. It is not: the
  format string ends with the suffix, whose default is \<open>B\<close>.
\<close>

theorem sizeof_fmt_1500_counterexample:
  "sizeof_fmt (PyInt 1500) \<noteq> Inr ''1.5 K''"
proof -
  have f: "to_float (PyInt 1500) = Inr 1500"
    using to_float_PyInt [of 1500] double_1500 by simp
  show ?thesis
    by (simp add: sizeof_fmt_def sizeof_fmt_suffix_def f double_3_2 fmt_eval)
qed

text \<open>
  C8, amended: 999 is rendered as \<open>999.0 B\<close>, 1500 as \<open>1.5 KB\<close> and \<open>10**18\<close> as
  \<open>1.0 EB\<close>, a value in the unit \<open>E\<close>; and every string that \<open>sizeof_fmt\<close> returns
  ends with a space, one unit of the ladder (none, \<open>K\<close>, \<open>M\<close>, \<open>G\<close>, \<open>T\<close>, \<open>P\<close>,
  \<open>E\<close>, \<open>Z\<close>, \<open>Y\<close>) and the suffix \<open>B\<close>.
\<close>

theorem sizeof_fmt_examples:
  "sizeof_fmt (PyInt 999) = Inr ''999.0 B''
   \<and> sizeof_fmt (PyInt 1500) = Inr ''1.5 KB''
   \<and> sizeof_fmt (PyInt (10 ^ 18)) = Inr ''1.0 EB''
   \<and> (\<forall>num s. sizeof_fmt num = Inr s \<longrightarrow>
         (\<exists>d u. u \<in> set ['''', ''K'', ''M'', ''G'', ''T'', ''P'', ''E'', ''Z'', ''Y'']
            \<and> s = d @ '' '' @ u @ ''B''))"
proof -
  have "\<exists>d u. u \<in> set ['''', ''K'', ''M'', ''G'', ''T'', ''P'', ''E'', ''Z'', ''Y'']
            \<and> s = d @ '' '' @ u @ ''B''" if "sizeof_fmt num = Inr s" for num s
    using sizeof_fmt_loop_unit [of "['''', ''K'', ''M'', ''G'', ''T'', ''P'', ''E'', ''Z'']" num "''B''" s] that
    unfolding sizeof_fmt_def sizeof_fmt_suffix_def by simp
  with sizeof_fmt_999 sizeof_fmt_1500 sizeof_fmt_1e18 show ?thesis by blast
qed

text \<open>
  The amended C8 at 999: the string returned ends with a space, the empty unit and
  \<open>B\<close>.
\<close>

theorem sizeof_fmt_examples_witness:
  "sizeof_fmt (PyInt 999) = Inr ''999.0 B''
   \<and> (\<exists>d u. u \<in> set ['''', ''K'', ''M'', ''G'', ''T'', ''P'', ''E'', ''Z'', ''Y'']
         \<and> ''999.0 B'' = d @ '' '' @ u @ ''B'')"
  using sizeof_fmt_examples by blast

section \<open>Properties of \<open>get_backup_files\<close>\<close>

lemma get_backup_path_cases:
  obtains (fail) "get_backup_path st os w = (Raised OSError, w)"
      "\<not> os_path_isdir w (backup_folder st)"
      "lookup w (backup_folder st) \<noteq> None \<or> backup_folder st = []
         \<or> refused os (Makedirs (backup_folder st))"
  | (ok) w1 where "get_backup_path st os w = (Returned (backup_folder st), w1)"
      "os_path_isdir w1 (backup_folder st)"
      "os_path_isdir w (backup_folder st)
         \<or> lookup w (backup_folder st) = None \<and> backup_folder st \<noteq> []
             \<and> \<not> refused os (Makedirs (backup_folder st))"
      "\<And>p. p \<noteq> backup_folder st \<Longrightarrow> lookup w1 p = lookup w p"
      "\<And>p. os_path_isfile w1 p = os_path_isfile w p"
proof (cases "os_path_isdir w (backup_folder st)")
  case True
  then show ?thesis
    using ok [of "w\<lparr>logged := logged w @ [(''DEBUG'', ''Backup directory path is: '' @ backup_folder st)]\<rparr>"]
    by (simp add: get_backup_path_def then_do_def logging_def Let_def)
next
  case nd: False
  show ?thesis
  proof (cases "backup_folder st = [] \<or> lookup w (backup_folder st) \<noteq> None
      \<or> refused os (Makedirs (backup_folder st))")
    case True
    then have "get_backup_path st os w = (Raised OSError, w)"
      using nd by (simp add: get_backup_path_def then_do_def os_makedirs_def Let_def)
    moreover have "lookup w (backup_folder st) \<noteq> None \<or> backup_folder st = []
         \<or> refused os (Makedirs (backup_folder st))"
      using True by blast
    ultimately show ?thesis using nd by (intro fail)
  next
    case False
    let ?w0 = "put (backup_folder st) (Dir (clock os)) w"
    let ?w1 = "?w0\<lparr>logged := logged ?w0 @
        [(''DEBUG'', ''Backup directory path is: '' @ backup_folder st)]\<rparr>"
    have "get_backup_path st os w = (Returned (backup_folder st), ?w1)"
      using nd False by (simp add: get_backup_path_def then_do_def os_makedirs_def logging_def Let_def)
    moreover have "os_path_isdir ?w1 (backup_folder st)"
      by (simp add: os_path_isdir_def)
    moreover have "os_path_isdir w (backup_folder st)
         \<or> lookup w (backup_folder st) = None \<and> backup_folder st \<noteq> []
             \<and> \<not> refused os (Makedirs (backup_folder st))"
      using False by simp
    moreover have "lookup ?w1 p = lookup w p" if "p \<noteq> backup_folder st" for p
      using that by simp
    moreover have "os_path_isfile ?w1 p = os_path_isfile w p" for p
      using False by (auto simp: os_path_isfile_def)
    ultimately show ?thesis by (rule ok)
  qed
qed







section \<open>Properties of the archive written by \<open>backup_to_zip\<close>\<close>

lemma fs_determinedI:
  "(\<And>w w'. fs w = fs w' \<Longrightarrow> fst (P w) = fst (P w') \<and> fs (snd (P w)) = fs (snd (P w')))
   \<Longrightarrow> fs_determined P"
  unfolding fs_determined_def by blast

lemma fs_determinedD:
  "fs_determined P \<Longrightarrow> fs w = fs w' \<Longrightarrow> fst (P w) = fst (P w') \<and> fs (snd (P w)) = fs (snd (P w'))"
  unfolding fs_determined_def by blast

lemma fs_determined_then_do:
  assumes P: "fs_determined P" and K: "\<And>x. fs_determined (K x)"
  shows "fs_determined (\<lambda>w. then_do (P w) K)"
proof (rule fs_determinedI)
  fix w w' :: world
  assume e: "fs w = fs w'"
  obtain o1 w1 where p1: "P w = (o1, w1)" by (cases "P w")
  obtain o2 w2 where p2: "P w' = (o2, w2)" by (cases "P w'")
  from fs_determinedD [OF P e] p1 p2 have o: "o2 = o1" and f: "fs w1 = fs w2" by simp_all
  show "fst (then_do (P w) K) = fst (then_do (P w') K)
      \<and> fs (snd (then_do (P w) K)) = fs (snd (then_do (P w') K))"
  proof (cases o1)
    case (Returned x)
    then show ?thesis
      using p1 p2 o fs_determinedD [OF K [of x] f] by (simp add: then_do_def)
  next
    case (Raised e)
    then show ?thesis using p1 p2 o f by (simp add: then_do_def)
  next
    case (Exited c)
    then show ?thesis using p1 p2 o f by (simp add: then_do_def)
  qed
qed

lemma fs_determined_return: "fs_determined (\<lambda>w. (Returned x, w))"
  by (simp add: fs_determined_def)

lemma fs_determined_logging: "fs_determined (logging l m)"
  by (simp add: fs_determined_def logging_def)

lemma fs_determined_sqlite3_connect: "fs_determined (sqlite3_connect os p)"
proof (rule fs_determinedI)
  fix w w' :: world
  assume e: "fs w = fs w'"
  then have "lookup w = lookup w'" "os_path_isdir w = os_path_isdir w'"
    by (simp_all add: fun_eq_iff os_path_isdir_def lookup_def)
  then show "fst (sqlite3_connect os p w) = fst (sqlite3_connect os p w')
      \<and> fs (snd (sqlite3_connect os p w)) = fs (snd (sqlite3_connect os p w'))"
    using e by (simp add: sqlite3_connect_def put_def)
qed

lemma fs_determined_sqlite3_backup: "fs_determined (sqlite3_backup os src dst)"
proof (rule fs_determinedI)
  fix w w' :: world
  assume e: "fs w = fs w'"
  then have "lookup w = lookup w'"
    by (simp add: fun_eq_iff lookup_def)
  then show "fst (sqlite3_backup os src dst w) = fst (sqlite3_backup os src dst w')
      \<and> fs (snd (sqlite3_backup os src dst w)) = fs (snd (sqlite3_backup os src dst w'))"
    using e by (simp add: sqlite3_backup_def put_def split: option.splits node.splits)
qed

lemma fs_determined_get_backup_path: "fs_determined (get_backup_path st os)"
proof (rule fs_determinedI)
  fix w w' :: world
  assume e: "fs w = fs w'"
  then have d: "os_path_isdir w (backup_folder st) = os_path_isdir w' (backup_folder st)"
    by (simp add: os_path_isdir_def lookup_def)
  show "fst (get_backup_path st os w) = fst (get_backup_path st os w')
      \<and> fs (snd (get_backup_path st os w)) = fs (snd (get_backup_path st os w'))"
    using e d
    by (simp add: get_backup_path_def then_do_def logging_def Let_def os_makedirs_def
        lookup_def put_def)
qed

lemma fs_determined_snapshot_try: "fs_determined (snapshot_try st os src)"
  unfolding snapshot_try_def Let_def
  by (intro fs_determined_then_do fs_determined_sqlite3_connect fs_determined_get_backup_path
      fs_determined_sqlite3_backup fs_determined_return)

lemma snapshot_try_logged:
  "fst (snapshot_try st os src (w\<lparr>logged := l\<rparr>)) = fst (snapshot_try st os src w)"
  using fs_determinedD [OF fs_determined_snapshot_try, of "w\<lparr>logged := l\<rparr>" w st os src]
  by simp

lemma get_backup_path_out:
  "get_backup_path st os w = (Raised e, w') \<Longrightarrow> e = OSError"
  "get_backup_path st os w = (Exited c, w') \<Longrightarrow> False"
  "get_backup_path st os w = (Returned d, w') \<Longrightarrow> d = backup_folder st"
  by (cases rule: get_backup_path_cases [of st os w]; simp)+

lemma sqlite3_connect_out:
  "sqlite3_connect os p w = (Raised e, w') \<Longrightarrow> is_Exception e"
  "sqlite3_connect os p w = (Exited c, w') \<Longrightarrow> False"
  by (auto simp: sqlite3_connect_def split: if_splits)

lemma sqlite3_backup_out:
  "sqlite3_backup os src dst w = (Raised e, w') \<Longrightarrow> is_Exception e"
  "sqlite3_backup os src dst w = (Exited c, w') \<Longrightarrow> False"
  by (auto simp: sqlite3_backup_def split: if_splits option.splits node.splits)

lemma snapshot_try_out:
  "snapshot_try st os src w = (Raised e, w') \<Longrightarrow> is_Exception e"
  "snapshot_try st os src w = (Exited c, w') \<Longrightarrow> False"
  "snapshot_try st os src w = (Returned f, w') \<Longrightarrow> f = os_path_join (backup_folder st) ''bazarr_temp.db''"
  by (auto simp: snapshot_try_def then_do_def Let_def split: prod.splits outcome.splits
      dest: get_backup_path_out sqlite3_connect_out sqlite3_backup_out)

lemma sqlite3_connect_keeps:
  "sqlite3_connect os q w = (out, w') \<Longrightarrow> lookup w p = Some n \<Longrightarrow> lookup w' p = Some n"
  by (auto simp: sqlite3_connect_def split: if_splits)

lemma sqlite3_backup_keeps:
  "sqlite3_backup os src dst w = (out, w') \<Longrightarrow> p \<noteq> dst \<Longrightarrow> lookup w' p = lookup w p"
  by (auto simp: sqlite3_backup_def split: if_splits option.splits node.splits)

lemma sqlite3_backup_file:
  "sqlite3_backup os src dst w = (Returned x, w') \<Longrightarrow> os_path_isfile w' dst"
  by (auto simp: sqlite3_backup_def os_path_isfile_def split: if_splits option.splits node.splits)

lemma get_backup_path_keeps:
  "get_backup_path st os w = (out, w') \<Longrightarrow> lookup w p = Some n \<Longrightarrow> lookup w' p = Some n"
  by (auto simp: get_backup_path_def then_do_def logging_def Let_def os_makedirs_def
      split: if_splits)

lemma snapshot_try_keeps:
  assumes "snapshot_try st os src w = (out, w')"
    and "p \<noteq> os_path_join (backup_folder st) ''bazarr_temp.db''"
    and "lookup w p = Some n"
  shows "lookup w' p = Some n"
proof -
  let ?tmp = "os_path_join (backup_folder st) ''bazarr_temp.db''"
  obtain o1 w1 where s1: "sqlite3_connect os src w = (o1, w1)" by (cases "sqlite3_connect os src w")
  from sqlite3_connect_keeps [OF s1 assms(3)] have l1: "lookup w1 p = Some n" .
  show ?thesis
  proof (cases o1)
    case r1: (Returned x1)
    obtain o2 w2 where s2: "get_backup_path st os w1 = (o2, w2)" by (cases "get_backup_path st os w1")
    from get_backup_path_keeps [OF s2 l1] have l2: "lookup w2 p = Some n" .
    show ?thesis
    proof (cases o2)
      case r2: (Returned bp)
      with s2 have bp: "bp = backup_folder st" using get_backup_path_out(3) by blast
      obtain o3 w3 where s3: "sqlite3_connect os ?tmp w2 = (o3, w3)"
        by (cases "sqlite3_connect os ?tmp w2")
      from sqlite3_connect_keeps [OF s3 l2] have l3: "lookup w3 p = Some n" .
      show ?thesis
      proof (cases o3)
        case r3: (Returned x3)
        obtain o4 w4 where s4: "sqlite3_backup os src ?tmp w3 = (o4, w4)"
          by (cases "sqlite3_backup os src ?tmp w3")
        from sqlite3_backup_keeps [OF s4 assms(2)] l3 have l4: "lookup w4 p = Some n" by simp
        from assms(1) s1 r1 s2 r2 bp s3 r3 s4 have "w' = w4"
          by (cases o4) (simp_all add: snapshot_try_def then_do_def Let_def)
        with l4 show ?thesis by simp
      next
        case (Raised e)
        with assms(1) s1 r1 s2 r2 bp s3 have "w' = w3"
          by (simp add: snapshot_try_def then_do_def Let_def)
        with l3 show ?thesis by simp
      next
        case (Exited c)
        with assms(1) s1 r1 s2 r2 bp s3 have "w' = w3"
          by (simp add: snapshot_try_def then_do_def Let_def)
        with l3 show ?thesis by simp
      qed
    next
      case (Raised e)
      with assms(1) s1 r1 s2 have "w' = w2" by (simp add: snapshot_try_def then_do_def Let_def)
      with l2 show ?thesis by simp
    next
      case (Exited c)
      with assms(1) s1 r1 s2 have "w' = w2" by (simp add: snapshot_try_def then_do_def Let_def)
      with l2 show ?thesis by simp
    qed
  next
    case (Raised e)
    with assms(1) s1 have "w' = w1" by (simp add: snapshot_try_def then_do_def)
    with l1 show ?thesis by simp
  next
    case (Exited c)
    with assms(1) s1 have "w' = w1" by (simp add: snapshot_try_def then_do_def)
    with l1 show ?thesis by simp
  qed
qed

lemma snapshot_try_file:
  "snapshot_try st os src w = (Returned f, w') \<Longrightarrow> os_path_isfile w' f"
  by (auto simp: snapshot_try_def then_do_def Let_def split: prod.splits outcome.splits
      dest: sqlite3_backup_file)

lemma snapshot_database_cases:
  obtains (some) w1 where
      "snapshot_database st os src w = (Returned (Some (os_path_join (backup_folder st) ''bazarr_temp.db'')), w1)"
      "fst (snapshot_try st os src w) = Returned (os_path_join (backup_folder st) ''bazarr_temp.db'')"
      "os_path_isfile w1 (os_path_join (backup_folder st) ''bazarr_temp.db'')"
      "\<And>p n. p \<noteq> os_path_join (backup_folder st) ''bazarr_temp.db'' \<Longrightarrow> lookup w p = Some n
         \<Longrightarrow> lookup w1 p = Some n"
  | (none) w1 where "snapshot_database st os src w = (Returned None, w1)"
      "\<forall>f. fst (snapshot_try st os src w) \<noteq> Returned f"
      "\<And>p n. p \<noteq> os_path_join (backup_folder st) ''bazarr_temp.db'' \<Longrightarrow> lookup w p = Some n
         \<Longrightarrow> lookup w1 p = Some n"
proof -
  obtain out w1 where s: "snapshot_try st os src w = (out, w1)" by (cases "snapshot_try st os src w")
  note k = snapshot_try_keeps [OF s]
  show ?thesis
  proof (cases out)
    case (Returned f)
    with s have f: "f = os_path_join (backup_folder st) ''bazarr_temp.db''"
      using snapshot_try_out(3) by blast
    from s Returned have "os_path_isfile w1 f" using snapshot_try_file by blast
    with s Returned f k show ?thesis using some [of w1] by (simp add: snapshot_database_def)
  next
    case (Raised e)
    with s have "is_Exception e" using snapshot_try_out(1) by blast
    with s Raised k show ?thesis
      using none [of "w1\<lparr>logged := logged w1 @ [(''ERROR'', ''Unable to backup database file.'')]\<rparr>"]
      by (simp add: snapshot_database_def then_do_def logging_def)
  next
    case (Exited c)
    with s show ?thesis using snapshot_try_out(2) by blast
  qed
qed

lemma zipfile_write_file:
  "lookup w f = Some (File c t) \<Longrightarrow>
   (\<exists>e. zipfile_write os zp f a w = (Raised e, w) \<and> e \<noteq> TypeError)
   \<or> (\<exists>ms t'. lookup w zp = Some (File (ZipArchive ms) t')
        \<and> zipfile_write os zp f a w =
            (Returned (), put zp (File (ZipArchive (ms @ [(a, c)])) (clock os)) w))"
  by (simp add: zipfile_write_def zip_date_check_def
      split: option.split node.split content.split)

lemma zipfile_write_cases:
  obtains (nofile) "\<not> os_path_isfile w f"
  | (fail) e where "zipfile_write os zp f a w = (Raised e, w)" "e \<noteq> TypeError"
  | (ok) ms t c where "lookup w zp = Some (File (ZipArchive ms) t)"
      "zipfile_write os zp f a w =
         (Returned (), put zp (File (ZipArchive (ms @ [(a, c)])) (clock os)) w)"
proof (cases "os_path_isfile w f")
  case False
  then show ?thesis by (rule nofile)
next
  case True
  then obtain c t where f: "lookup w f = Some (File c t)"
    by (auto simp: os_path_isfile_def split: option.splits node.splits)
  from zipfile_write_file [OF f, of os zp a] show ?thesis
  proof
    assume "\<exists>e. zipfile_write os zp f a w = (Raised e, w) \<and> e \<noteq> TypeError"
    then obtain e where "zipfile_write os zp f a w = (Raised e, w)" "e \<noteq> TypeError" by blast
    then show ?thesis by (rule fail)
  next
    assume "\<exists>ms t'. lookup w zp = Some (File (ZipArchive ms) t')
        \<and> zipfile_write os zp f a w =
            (Returned (), put zp (File (ZipArchive (ms @ [(a, c)])) (clock os)) w)"
    then obtain ms t' where "lookup w zp = Some (File (ZipArchive ms) t')"
      "zipfile_write os zp f a w =
         (Returned (), put zp (File (ZipArchive (ms @ [(a, c)])) (clock os)) w)" by blast
    then show ?thesis by (rule ok)
  qed
qed

lemma isfile_put: "os_path_isfile (put p n w) q = (if q = p then (\<exists>c t. n = File c t) else os_path_isfile w q)"
  by (cases n) (simp_all add: os_path_isfile_def)

lemma write_archive_cases:
  assumes cf: "os_path_isfile w cfg" "cfg \<noteq> os_path_join (backup_folder st) name"
    and df: "truthy db \<Longrightarrow> os_path_isfile w (the db) \<and> the db \<noteq> os_path_join (backup_folder st) name"
  shows "(\<exists>e w'. write_archive st os name db cfg w = (Raised e, w') \<and> e \<noteq> TypeError)
    \<or> (\<exists>w' ms t. write_archive st os name db cfg w = (Returned (), w')
         \<and> lookup w' (os_path_join (backup_folder st) name) = Some (File (ZipArchive ms) t)
         \<and> map fst ms = (if truthy db then [''bazarr.db'', ''config.ini''] else [''config.ini'']))"
proof -
  have that: "?thesis" if "write_archive st os name db cfg w = (Raised e, w')" "e \<noteq> TypeError"
    for e w' using that by blast
  have that2: "?thesis" if "write_archive st os name db cfg w = (Returned (), w')"
      "lookup w' (os_path_join (backup_folder st) name) = Some (File (ZipArchive ms) t)"
      "map fst ms = (if truthy db then [''bazarr.db'', ''config.ini''] else [''config.ini''])"
    for w' ms t using that by blast
  show ?thesis
  proof (cases rule: get_backup_path_cases [of st os w])
  case fail
  then have "write_archive st os name db cfg w = (Raised OSError, w)"
    by (simp add: write_archive_def then_do_def)
  then show ?thesis by (rule that) simp
next
  case (ok w1)
  let ?zp = "os_path_join (backup_folder st) name"
  let ?w2 = "put ?zp (File (ZipArchive []) (clock os)) w1"
  have cf2: "os_path_isfile ?w2 cfg"
    using cf ok(5) by (simp add: isfile_put)
  show ?thesis
  proof (cases "os_path_isdir w1 ?zp \<or> refused os (OpenWrite ?zp)")
    case True
    then have "write_archive st os name db cfg w = (Raised OSError, w1)"
      using ok(1) by (auto simp: write_archive_def then_do_def zipfile_open_w_def Let_def)
    then show ?thesis by (rule that) simp
  next
    case False
    then have wa: "write_archive st os name db cfg w =
        then_do (if truthy db then zipfile_write os ?zp (the db) ''bazarr.db'' ?w2
                 else logging ''DEBUG''
                   ''Database file is not included in backup. See previous exception'' ?w2)
          (\<lambda>_ w3. zipfile_write os ?zp cfg ''config.ini'' w3)"
      using ok(1) by (simp add: write_archive_def then_do_def zipfile_open_w_def Let_def)
    show ?thesis
    proof (cases "truthy db")
      case tr: True
      have df2: "os_path_isfile ?w2 (the db)"
        using df [OF tr] ok(5) by (simp add: isfile_put)
      show ?thesis
      proof (cases rule: zipfile_write_cases [where w = ?w2 and f = "the db" and os = os and zp = ?zp
          and a = "''bazarr.db''"])
        case nofile
        with df2 show ?thesis by simp
      next
        case (fail e)
        then have "write_archive st os name db cfg w = (Raised e, ?w2)"
          using wa tr by (simp add: then_do_def)
        then show ?thesis using fail(2) by (rule that)
      next
        case (ok ms t c)
        then have ms: "ms = []" by simp
        let ?w3 = "put ?zp (File (ZipArchive ([] @ [(''bazarr.db'', c)])) (clock os)) ?w2"
        have wa3: "write_archive st os name db cfg w = zipfile_write os ?zp cfg ''config.ini'' ?w3"
          using wa tr ok(2) ms by (simp add: then_do_def)
        have cf3: "os_path_isfile ?w3 cfg"
          using cf2 cf(2) by (simp add: isfile_put)
        show ?thesis
        proof (cases rule: zipfile_write_cases [where w = ?w3 and f = cfg and os = os and zp = ?zp
          and a = "''config.ini''"])
          case nofile
          with cf3 show ?thesis by simp
        next
          case (fail e)
          then show ?thesis using wa3 that by simp
        next
          case ok2: (ok ms' t' c')
          then have "ms' = [(''bazarr.db'', c)]" by simp
          with ok2 wa3 tr show ?thesis
            using that2 [of "put ?zp (File (ZipArchive (ms' @ [(''config.ini'', c')])) (clock os)) ?w3"
                "ms' @ [(''config.ini'', c')]" "clock os"]
            by simp
        qed
      qed
    next
      case fl: False
      let ?w3 = "?w2\<lparr>logged := logged ?w2 @
          [(''DEBUG'', ''Database file is not included in backup. See previous exception'')]\<rparr>"
      have wa3: "write_archive st os name db cfg w = zipfile_write os ?zp cfg ''config.ini'' ?w3"
        using wa fl by (simp add: then_do_def logging_def)
      have cf3: "os_path_isfile ?w3 cfg"
        using cf2 by simp
      show ?thesis
      proof (cases rule: zipfile_write_cases [where w = ?w3 and f = cfg and os = os and zp = ?zp
          and a = "''config.ini''"])
        case nofile
        with cf3 show ?thesis by simp
      next
        case (fail e)
        then show ?thesis using wa3 that by simp
      next
        case ok2: (ok ms' t' c')
        then have "ms' = []" by simp
        with ok2 wa3 fl show ?thesis
          using that2 [of "put ?zp (File (ZipArchive (ms' @ [(''config.ini'', c')])) (clock os)) ?w3"
              "ms' @ [(''config.ini'', c')]" "clock os"]
          by simp
      qed
    qed
  qed
qed
qed

lemma last_os_path_join: "b \<noteq> [] \<Longrightarrow> last (os_path_join a b) = last b"
  by (simp add: os_path_join_def)

lemma temp_not_archive:
  "os_path_join d ''bazarr_temp.db'' \<noteq> os_path_join d (backup_filename os version)"
proof
  assume "os_path_join d ''bazarr_temp.db'' = os_path_join d (backup_filename os version)"
  then have "last (os_path_join d ''bazarr_temp.db'') = last (os_path_join d (backup_filename os version))"
    by simp
  then show False
    by (simp add: last_os_path_join backup_filename_def)
qed

lemma temp_truthy: "truthy (Some (os_path_join d ''bazarr_temp.db''))"
  by (simp add: os_path_join_def)

lemma os_remove_arg_frame:
  "db = None \<or> db = Some f \<Longrightarrow> p \<noteq> f \<Longrightarrow>
   lookup (snd (try_except (os_remove_arg os db w) is_OSError (\<lambda>e. logging l m))) p = lookup w p"
  by (auto simp: try_except_def logging_def os_remove_def)

lemma os_remove_arg_out:
  "fst (try_except (os_remove_arg os db w) is_OSError (\<lambda>e. logging l m)) =
     (if db = None then Raised TypeError else Returned ())"
  by (cases db) (simp_all add: try_except_def logging_def os_remove_def)

lemma config_not_archive:
  "os_path_join d ''config.ini'' \<noteq> os_path_join d' (backup_filename os version)"
proof
  assume "os_path_join d ''config.ini'' = os_path_join d' (backup_filename os version)"
  then have "last (os_path_join d ''config.ini'') = last (os_path_join d' (backup_filename os version))"
    by simp
  then show False
    by (simp add: last_os_path_join backup_filename_def)
qed

lemma config_not_temp:
  "os_path_join d ''config.ini'' \<noteq> os_path_join d' ''bazarr_temp.db''"
proof
  assume "os_path_join d ''config.ini'' = os_path_join d' ''bazarr_temp.db''"
  then have "last (os_path_join d ''config.ini'') = last (os_path_join d' ''bazarr_temp.db'')"
    by simp
  then show False
    by (simp add: last_os_path_join)
qed

text \<open>
  C4, as stated by the specification: every archive produced contains the member
  \<open>config.ini\<close>. It does not when a \<open>write\<close> raises inside the \<open>with\<close> block, which
  the code does not catch: the archive is closed and stays under its final name with the
  members written so far. Evaluated on an installation without \<open>config.ini\<close>: the
  call raises \<open>OSError\<close> and leaves an archive that holds \<open>bazarr.db\<close> only.
\<close>

theorem backup_archive_incomplete_counterexample:
  "fst (backup_to_zip example_settings example_args example_os_2022 world_no_config)
     = Raised OSError
   \<and> lookup (snd (backup_to_zip example_settings example_args example_os_2022 world_no_config))
       ''/backup/bazarr_backup_v1.0_2022.01.01_00.00.00.zip''
     = Some (File (ZipArchive [(''bazarr.db'', Bytes ''live db'')]) 1640995200000000)"
  by (simp add: run_eval backup_eval example_settings_def example_args_def example_os_def
      example_os_2022_def world_no_config_def)

text \<open>
  C4, amended: when \<open>config.ini\<close> is a regular file and the \<open>with\<close> block is left
  normally (\<open>backup_to_zip\<close> returns, or raises only the \<open>TypeError\<close> of its last
  statement), the archive written contains the member \<open>config.ini\<close>, and it contains
  the member \<open>bazarr.db\<close> if and only if the snapshot step (the body of the first
  \<open>try\<close>) succeeded.
\<close>

theorem backup_archive_members:
  assumes v: "environ os ''BAZARR_VERSION'' = Some version"
    and cfg: "os_path_isfile w (live_config ar)"
    and left: "fst (backup_to_zip st ar os w) = Returned ()
      \<or> fst (backup_to_zip st ar os w) = Raised TypeError"
  shows "\<exists>ms t. lookup (snd (backup_to_zip st ar os w))
            (os_path_join (backup_folder st) (backup_filename os version))
          = Some (File (ZipArchive ms) t)
      \<and> ''config.ini'' \<in> fst ` set ms
      \<and> (''bazarr.db'' \<in> fst ` set ms
           \<longleftrightarrow> (\<exists>f. fst (snapshot_try st os (live_database ar) w) = Returned f))"
proof -
  let ?name = "backup_filename os version"
  let ?zp = "os_path_join (backup_folder st) ?name"
  let ?tmp = "os_path_join (backup_folder st) ''bazarr_temp.db''"
  let ?cfg = "os_path_join (os_path_join (config_dir ar) ''config'') ''config.ini''"
  let ?w2 = "w\<lparr>logged := logged w @
      [(''DEBUG'', ''Backup filename will be: '' @ ?name),
       (''DEBUG'', ''Database file path to backup is: '' @ live_database ar)]\<rparr>"
  let ?m = "''Config file path to backup is: '' @ ?cfg"
  have snap: "(\<exists>f. fst (snapshot_try st os (live_database ar) ?w2) = Returned f)
      \<longleftrightarrow> (\<exists>f. fst (snapshot_try st os (live_database ar) w) = Returned f)"
    by (simp only: snapshot_try_logged)
  from cfg obtain c0 t0 where c0: "lookup ?w2 ?cfg = Some (File c0 t0)"
    by (auto simp: os_path_isfile_def live_config_def split: option.splits node.splits)
  have ct: "?cfg \<noteq> ?tmp" by (rule config_not_temp)
  obtain db w3 where sd: "snapshot_database st os (live_database ar) ?w2 = (Returned db, w3)"
    and db: "db = None \<or> db = Some ?tmp"
    and iff: "db \<noteq> None \<longleftrightarrow> (\<exists>f. fst (snapshot_try st os (live_database ar) ?w2) = Returned f)"
    and tf: "db \<noteq> None \<Longrightarrow> os_path_isfile w3 ?tmp"
    and c3: "lookup w3 ?cfg = Some (File c0 t0)"
  proof (cases rule: snapshot_database_cases [of st os "live_database ar" ?w2])
    case (some w1)
    from some(4) [OF ct c0] have "lookup w1 ?cfg = Some (File c0 t0)" .
    with some(1,2,3) show ?thesis using that [of "Some ?tmp" w1] by simp
  next
    case (none w1)
    from none(3) [OF ct c0] have "lookup w1 ?cfg = Some (File c0 t0)" .
    with none(1,2) show ?thesis using that [of None w1] by simp
  qed
  let ?w4 = "w3\<lparr>logged := logged w3 @ [(''DEBUG'', ?m)]\<rparr>"
  let ?fin = "\<lambda>w5. try_except (os_remove_arg os db w5) is_OSError
      (\<lambda>e. logging ''ERROR''
         (''Unable to delete temporary database backup file: '' @ repr_arg db))"
  have run: "backup_to_zip st ar os w =
      then_do (write_archive st os ?name db ?cfg ?w4) (\<lambda>_. ?fin)"
    using v sd
    by (simp add: backup_to_zip_def then_do_def logging_def Let_def live_database_def)
  have tr: "truthy db \<longleftrightarrow> db \<noteq> None"
    using db temp_truthy [of "backup_folder st"] by auto
  have cf4: "os_path_isfile ?w4 ?cfg" using c3 by (simp add: os_path_isfile_def)
  have cz: "?cfg \<noteq> ?zp" by (rule config_not_archive)
  have df4: "os_path_isfile ?w4 (the db) \<and> the db \<noteq> ?zp" if "truthy db"
    using that tr db tf temp_not_archive [of "backup_folder st" os version] by auto
  from write_archive_cases [of ?w4 ?cfg st ?name db os, OF cf4 cz df4]
  consider (fail) e w' where "write_archive st os ?name db ?cfg ?w4 = (Raised e, w')"
      "e \<noteq> TypeError"
    | (ok) w5 ms t where "write_archive st os ?name db ?cfg ?w4 = (Returned (), w5)"
      "lookup w5 ?zp = Some (File (ZipArchive ms) t)"
      "map fst ms = (if truthy db then [''bazarr.db'', ''config.ini''] else [''config.ini''])"
    by blast
  then show ?thesis
  proof cases
    case fail
    with run have "fst (backup_to_zip st ar os w) = Raised e"
      by (simp add: then_do_def)
    with left fail(2) show ?thesis by simp
  next
    case ok
    have fin: "backup_to_zip st ar os w = ?fin w5"
      using run ok(1) by (simp add: then_do_def)
    have "lookup (snd (?fin w5)) ?zp = lookup w5 ?zp"
      by (rule os_remove_arg_frame [OF db]) (simp add: temp_not_archive [symmetric])
    with fin ok(2) have l: "lookup (snd (backup_to_zip st ar os w)) ?zp
        = Some (File (ZipArchive ms) t)"
      by simp
    have names: "set (map fst ms) = (if db \<noteq> None then {''bazarr.db'', ''config.ini''}
        else {''config.ini''})"
      using ok(3) tr by auto
    have "''config.ini'' \<in> fst ` set ms"
      using names by (auto split: if_splits)
    moreover have "''bazarr.db'' \<in> fst ` set ms \<longleftrightarrow> db \<noteq> None"
      using names by (auto split: if_splits)
    ultimately show ?thesis
      using l iff snap by blast
  qed
qed

text \<open>
  The amended C4 at two installations: one whose snapshot succeeds (both members) and
  one whose snapshot fails (\<open>config.ini\<close> only).
\<close>

theorem backup_archive_members_witness:
  "lookup (snd (backup_to_zip example_settings example_args example_os_2022 world_live))
      ''/backup/bazarr_backup_v1.0_2022.01.01_00.00.00.zip''
     = Some (File (ZipArchive [(''bazarr.db'', Bytes ''live db''),
          (''config.ini'', Bytes ''live config'')]) 1640995200000000)
   \<and> fst (snapshot_try example_settings example_os_2022 ''/cfg/db/bazarr.db'' world_live)
     = Returned ''/backup/bazarr_temp.db''
   \<and> lookup (snd (backup_to_zip example_settings example_args example_os_snapshot_fails world_live))
      ''/backup/bazarr_backup_v1.0_2022.01.01_00.00.00.zip''
     = Some (File (ZipArchive [(''config.ini'', Bytes ''live config'')]) 100)
   \<and> fst (snapshot_try example_settings example_os_snapshot_fails ''/cfg/db/bazarr.db'' world_live)
     = Raised (OtherException ''sqlite3.DatabaseError'')"
proof -
  have v: "environ example_os_2022 ''BAZARR_VERSION'' = Some ''1.0''"
    "environ example_os_snapshot_fails ''BAZARR_VERSION'' = Some ''1.0''"
    by (simp_all add: example_os_def example_os_2022_def example_os_snapshot_fails_def)
  have cf: "os_path_isfile world_live (live_config example_args)"
    by (simp add: run_eval restore_eval example_args_def world_live_def)
  have r1: "fst (backup_to_zip example_settings example_args example_os_2022 world_live) = Returned ()"
    by (simp add: run_eval backup_eval example_settings_def example_args_def example_os_def
        example_os_2022_def world_live_def)
  have r2: "fst (backup_to_zip example_settings example_args example_os_snapshot_fails world_live)
      = Raised TypeError"
    by (simp add: run_eval backup_eval example_settings_def example_args_def example_os_def
        example_os_snapshot_fails_def world_live_def)
  have a: "lookup (snd (backup_to_zip example_settings example_args example_os_2022 world_live))
      ''/backup/bazarr_backup_v1.0_2022.01.01_00.00.00.zip''
     = Some (File (ZipArchive [(''bazarr.db'', Bytes ''live db''),
          (''config.ini'', Bytes ''live config'')]) 1640995200000000)"
    by (simp add: run_eval backup_eval example_settings_def example_args_def example_os_def
        example_os_2022_def world_live_def)
  have b: "lookup (snd (backup_to_zip example_settings example_args example_os_snapshot_fails world_live))
      ''/backup/bazarr_backup_v1.0_2022.01.01_00.00.00.zip''
     = Some (File (ZipArchive [(''config.ini'', Bytes ''live config'')]) 100)"
    by (simp add: run_eval backup_eval example_settings_def example_args_def example_os_def
        example_os_snapshot_fails_def world_live_def)
  have c: "fst (snapshot_try example_settings example_os_2022 ''/cfg/db/bazarr.db'' world_live)
     = Returned ''/backup/bazarr_temp.db''"
    by (simp add: run_eval backup_eval example_settings_def example_os_def example_os_2022_def
        world_live_def)
  have d: "fst (snapshot_try example_settings example_os_snapshot_fails ''/cfg/db/bazarr.db'' world_live)
     = Raised (OtherException ''sqlite3.DatabaseError'')"
    by (simp add: run_eval backup_eval example_settings_def example_os_def
        example_os_snapshot_fails_def world_live_def)
  from backup_archive_members [OF v(1) cf, of example_settings]
    backup_archive_members [OF v(2) cf, of example_settings]
    r1 r2 a b c d
  show ?thesis by simp
qed

section \<open>The rotation loop\<close>

lemma getmtime_keys_stat:
  "\<forall>p \<in> set ps. lookup w p \<noteq> None \<Longrightarrow> \<exists>keyed. getmtime_keys w ps = Inr keyed \<and> map snd keyed = ps"
proof (induction ps)
  case Nil
  then show ?case by simp
next
  case (Cons p ps)
  then obtain keyed where k: "getmtime_keys w ps = Inr keyed" "map snd keyed = ps" by auto
  from Cons.prems obtain n where "lookup w p = Some n" by auto
  then show ?case using k by (cases n) (simp_all add: os_path_getmtime_def)
qed

lemma rotation_loop_effect:
  assumes "distinct files" "\<forall>f \<in> set files. lookup w f \<noteq> None"
  shows "fst (rotation_loop os days files w) = Returned ()
    \<and> (\<forall>p. lookup (snd (rotation_loop os days files w)) p =
         (if p \<in> set files
             \<and> (\<exists>c t. lookup w p = Some (File c t)
                   \<and> fromtimestamp os t + timedelta_days days < utcnow os)
             \<and> \<not> refused os (Remove p)
          then None else lookup w p))"
  using assms
proof (induction files arbitrary: w)
  case Nil
  then show ?case by simp
next
  case (Cons f files)
  from Cons.prems obtain n where n: "lookup w f = Some n" by auto
  obtain t where t: "os_path_getmtime w f = Inr t"
    and nt: "\<And>c t'. n = File c t' \<Longrightarrow> t' = t"
    using n by (cases n) (simp_all add: os_path_getmtime_def)
  have nf: "f \<notin> set files" and d: "distinct files" using Cons.prems by simp_all
  show ?case
  proof (cases "fromtimestamp os t + timedelta_days days < utcnow os")
    case False
    have step: "rotation_loop os days (f # files) w = rotation_loop os days files w"
      using t False by simp
    have "\<forall>g \<in> set files. lookup w g \<noteq> None" using Cons.prems by simp
    from Cons.IH [OF d this] show ?thesis
      unfolding step using n nt False nf by auto
  next
    case True
    let ?w1 = "w\<lparr>logged := logged w @ [(''DEBUG'', ''Deleting old backup file '' @ f)]\<rparr>"
    obtain w2 where r: "try_except (os_remove os f ?w1) is_OSError
          (\<lambda>e. logging ''DEBUG'' (''Unable to delete backup file '' @ f)) = (Returned (), w2)"
      and l2: "\<forall>p. lookup w2 p =
          (if p = f \<and> (\<exists>c t'. n = File c t') \<and> \<not> refused os (Remove f) then None else lookup w p)"
      using n
      by (cases n; cases "refused os (Remove f)")
        (auto simp: try_except_def os_remove_def logging_def os_path_isfile_def)
    have step: "rotation_loop os days (f # files) w = rotation_loop os days files w2"
      using t True r by (simp add: then_do_def logging_def)
    have "\<forall>g \<in> set files. lookup w2 g \<noteq> None"
      using Cons.prems l2 nf by auto
    from Cons.IH [OF d this] show ?thesis
      unfolding step using n nt True nf l2 by auto
  qed
qed

lemma distinct_glob_backup_files: "distinct (glob_backup_files os w d)"
  by (simp add: glob_backup_files_def Let_def)

lemma distinct_map_snd_sort_key:
  "distinct (map snd (sort_key f keyed)) = distinct (map snd keyed)"
  by (simp add: distinct_map)

lemma sorted_backup_files_isdir:
  assumes "os_path_isdir w (backup_folder st)"
    and "\<forall>p \<in> set (glob_backup_files os w (backup_folder st)). lookup w p \<noteq> None"
  obtains files where
    "sorted_backup_files st os w =
       (Returned files,
        w\<lparr>logged := logged w @ [(''DEBUG'', ''Backup directory path is: '' @ backup_folder st)]\<rparr>)"
    "set files = set (glob_backup_files os w (backup_folder st))" "distinct files"
proof -
  let ?w1 = "w\<lparr>logged := logged w @ [(''DEBUG'', ''Backup directory path is: '' @ backup_folder st)]\<rparr>"
  have g: "get_backup_path st os w = (Returned (backup_folder st), ?w1)"
    using assms(1) by (simp add: get_backup_path_def then_do_def logging_def Let_def)
  have gl: "glob_backup_files os ?w1 (backup_folder st) = glob_backup_files os w (backup_folder st)"
    by (simp add: glob_backup_files_def)
  have "\<forall>p \<in> set (glob_backup_files os ?w1 (backup_folder st)). lookup ?w1 p \<noteq> None"
    using assms(2) unfolding gl by simp
  from getmtime_keys_stat [OF this]
  obtain keyed where k: "getmtime_keys ?w1 (glob_backup_files os ?w1 (backup_folder st)) = Inr keyed"
    "map snd keyed = glob_backup_files os ?w1 (backup_folder st)"
    by blast
  have s: "sorted_backup_files st os w = (Returned (map snd (sort_key fst keyed)), ?w1)"
    using g k(1) by (simp add: sorted_backup_files_def then_do_def)
  have "set (map snd (sort_key fst keyed)) = set (glob_backup_files os w (backup_folder st))"
    using k(2) gl by (metis set_map set_sort)
  moreover have "distinct (map snd (sort_key fst keyed))"
    using k(2) distinct_glob_backup_files [of os ?w1 "backup_folder st"]
    by (simp add: distinct_map_snd_sort_key)
  ultimately show ?thesis using s that by blast
qed

text \<open>
  What \<open>backup_rotation\<close> does to every path, with a valid retention, an existing
  backup directory and a listing without dangling links: it removes exactly the listed
  regular files for which the local time of the modification plus the retention lies
  before the UTC time of the call, unless the operating system refuses the removal.
\<close>

lemma backup_rotation_effect:
  assumes r: "backup_retention st = Some days" and dir: "os_path_isdir w (backup_folder st)"
    and stat: "\<forall>p \<in> set (glob_backup_files os w (backup_folder st)). lookup w p \<noteq> None"
  shows "fst (backup_rotation st os w) = Returned ()"
    and "lookup (snd (backup_rotation st os w)) p =
      (if p \<in> set (glob_backup_files os w (backup_folder st))
          \<and> (\<exists>c t. lookup w p = Some (File c t)
                \<and> fromtimestamp os t + timedelta_days days < utcnow os)
          \<and> \<not> refused os (Remove p)
       then None else lookup w p)"
proof -
  obtain files where s: "sorted_backup_files st os w =
       (Returned files,
        w\<lparr>logged := logged w @ [(''DEBUG'', ''Backup directory path is: '' @ backup_folder st)]\<rparr>)"
    and set: "set files = set (glob_backup_files os w (backup_folder st))" and d: "distinct files"
    using sorted_backup_files_isdir [OF dir stat] by blast
  let ?w2 = "w\<lparr>logged := logged w @
      [(''DEBUG'', ''Backup directory path is: '' @ backup_folder st),
       (''DEBUG'', ''Cleaning up backup files older than '' @ str_int days @ '' days'')]\<rparr>"
  have f: "\<forall>f \<in> set files. lookup ?w2 f \<noteq> None"
    using set stat by simp
  note loop = rotation_loop_effect [OF d f, of os days]
  obtain out w3 where rl: "rotation_loop os days files ?w2 = (out, w3)"
    by (cases "rotation_loop os days files ?w2")
  have run: "backup_rotation st os w =
      (Returned (), w3\<lparr>logged := logged w3 @ [(''DEBUG'', ''Finished cleaning up old backup files'')]\<rparr>)"
    using r s rl loop
    by (simp add: backup_rotation_def get_backup_files_def then_do_def logging_def)
  show "fst (backup_rotation st os w) = Returned ()"
    using run by simp
  show "lookup (snd (backup_rotation st os w)) p =
      (if p \<in> set (glob_backup_files os w (backup_folder st))
          \<and> (\<exists>c t. lookup w p = Some (File c t)
                \<and> fromtimestamp os t + timedelta_days days < utcnow os)
          \<and> \<not> refused os (Remove p)
       then None else lookup w p)"
  proof -
    have w3: "snd (rotation_loop os days files ?w2) = w3"
      using rl by simp
    from loop have "\<forall>p. lookup (snd (rotation_loop os days files ?w2)) p =
        (if p \<in> set files
            \<and> (\<exists>c t. lookup ?w2 p = Some (File c t)
                  \<and> fromtimestamp os t + timedelta_days days < utcnow os)
            \<and> \<not> refused os (Remove p)
         then None else lookup ?w2 p)"
      by (rule conjunct2)
    then have "lookup w3 p =
        (if p \<in> set files
            \<and> (\<exists>c t. lookup ?w2 p = Some (File c t)
                  \<and> fromtimestamp os t + timedelta_days days < utcnow os)
            \<and> \<not> refused os (Remove p)
         then None else lookup ?w2 p)"
      unfolding w3 by (rule spec)
    then show ?thesis
      unfolding run set by (simp cong: if_cong)
  qed
qed

text \<open>
  On a host whose local time is UTC the two clocks agree, and the rotation keeps every
  listed archive that is not older than the retention window and removes every strictly
  older one whose removal is not refused.
\<close>

lemma backup_rotation_utc:
  assumes r: "backup_retention st = Some days" and dir: "os_path_isdir w (backup_folder st)"
    and stat: "\<forall>p \<in> set (glob_backup_files os w (backup_folder st)). lookup w p \<noteq> None"
    and utc: "\<forall>t. utcoffset os t = 0"
    and p: "p \<in> set (glob_backup_files os w (backup_folder st))"
    and l: "lookup w p = Some (File c t)"
  shows "utcnow os - timedelta_days days \<le> t
      \<Longrightarrow> lookup (snd (backup_rotation st os w)) p = lookup w p"
    and "t < utcnow os - timedelta_days days \<Longrightarrow> \<not> refused os (Remove p)
      \<Longrightarrow> lookup (snd (backup_rotation st os w)) p = None"
proof -
  have ft: "fromtimestamp os t = t"
    using utc by (simp add: fromtimestamp_def)
  show "utcnow os - timedelta_days days \<le> t
      \<Longrightarrow> lookup (snd (backup_rotation st os w)) p = lookup w p"
    using backup_rotation_effect(2) [OF r dir stat, of p] l ft by auto
  show "t < utcnow os - timedelta_days days \<Longrightarrow> \<not> refused os (Remove p)
      \<Longrightarrow> lookup (snd (backup_rotation st os w)) p = None"
    using backup_rotation_effect(2) [OF r dir stat, of p] l ft p by auto
qed

text \<open>
  A symbolic link whose target is missing is listed by \<open>glob\<close>, and sorting the list by
  modification time raises.
\<close>

lemma get_backup_files_dangling_link:
  "glob_backup_files example_os_dangling world_live ''/backup''
     = [example_archive, ''/backup/bazarr_backup_v0.9_link.zip'']
   \<and> fst (get_backup_files example_settings example_os_dangling True world_live) = Raised OSError"
  by (simp add: run_eval backup_eval example_settings_def example_os_def example_os_dangling_def
      example_archive_def world_live_def)

end
